theory Spec2Isabelle
  imports Main "HOL-Library.Sublist"
begin

section \<open>CoreStitchAuth: the authentication state of a Stitch client\<close>

text \<open>
  A shallow embedding of the class \<open>CoreStitchAuth\<close>. The object is a record that every
  operation takes and returns; a promise that rejects and a \<open>throw\<close> are the left
  injection of a sum; the collaborators the class only calls (the transport, the storage,
  the JSON and JWT decoders, the routes) are fields of an environment record. A chain of
  \<open>then\<close>/\<open>catch\<close> handlers of one promise runs in the order the chain gives, and
  one call of an operation runs from its start to its end with no other call in
  between. The one promise the source starts and does not wait for, the logout inside
  \<open>loginWithCredentialInternal\<close>, is split at its request, and the order in which
  the transport settles it is a parameter.

  A synchronous \<open>throw\<close> and a rejection are the same value here. The source tells
  them apart in one place that matters: \<open>prepareAuthRequest\<close> throws before
  \<open>doRequest\<close> returns its promise, so that its error does not reach the \<open>catch\<close>
  of \<open>doAuthenticatedRequest\<close>; the model has that.

  Left out are the event-stream variants of the request path, the decoding wrapper
  \<open>doAuthenticatedRequestWithDecoder\<close>, and the timer of the \<open>AccessTokenRefresher\<close>
  (each of its ticks is a call of \<open>refreshAccessToken\<close>).
\<close>

subsection \<open>Errors\<close>

datatype StitchClientErrorCode =
    LoggedOutDuringRequest
  | MustAuthenticateFirst
  | UserNoLongerValid
  | CouldNotLoadPersistedAuthInfo
  | CouldNotPersistAuthInfo

datatype StitchServiceErrorCode = InvalidSession | Unknown | OtherServiceErrorCode string

datatype StitchRequestErrorCode = TRANSPORT_ERROR | DECODING_ERROR

text \<open>
  \<open>JSError\<close> stands for every thrown value that is not a \<open>StitchError\<close> (a
  \<open>SyntaxError\<close> of \<open>JSON.parse\<close>, a \<open>TypeError\<close>).
\<close>

datatype StitchError =
    StitchClientError StitchClientErrorCode
  | StitchServiceError string StitchServiceErrorCode
  | StitchRequestError StitchError StitchRequestErrorCode
  | JSError string

subsection \<open>Data\<close>

datatype StitchUserProfileImpl = Profile string

text \<open>
  Every field of \<open>AuthInfo\<close> is optional in the source (\<open>undefined\<close> is \<open>None\<close>).
\<close>

record AuthInfo =
  userId :: "string option"
  deviceId :: "string option"
  accessToken :: "string option"
  refreshToken :: "string option"
  loggedInProviderType :: "string option"
  loggedInProviderName :: "string option"
  userProfile :: "StitchUserProfileImpl option"

text \<open>
  Modelled from the spec: the class \<open>AuthInfo\<close> (\<open>empty\<close>, \<open>loggedOut\<close>, \<open>merge\<close>) is
  not among the sources. The empty value has no field defined; the logged-out form
  clears the identity and token fields and keeps the device id; merging takes each
  field of the new value that is defined and keeps the old one otherwise.
\<close>

definition empty_AuthInfo :: AuthInfo where
  "empty_AuthInfo =
     \<lparr>userId = None, deviceId = None, accessToken = None, refreshToken = None,
      loggedInProviderType = None, loggedInProviderName = None, userProfile = None\<rparr>"

definition loggedOut :: "AuthInfo \<Rightarrow> AuthInfo" where
  "loggedOut a =
     \<lparr>userId = None, deviceId = deviceId a, accessToken = None, refreshToken = None,
      loggedInProviderType = None, loggedInProviderName = None, userProfile = None\<rparr>"

definition orElse :: "'a option \<Rightarrow> 'a option \<Rightarrow> 'a option" where
  "orElse new old = (case new of None \<Rightarrow> old | Some v \<Rightarrow> Some v)"

definition merge :: "AuthInfo \<Rightarrow> AuthInfo \<Rightarrow> AuthInfo" where
  "merge this newInfo =
     \<lparr>userId = orElse (userId newInfo) (userId this),
      deviceId = orElse (deviceId newInfo) (deviceId this),
      accessToken = orElse (accessToken newInfo) (accessToken this),
      refreshToken = orElse (refreshToken newInfo) (refreshToken this),
      loggedInProviderType = orElse (loggedInProviderType newInfo) (loggedInProviderType this),
      loggedInProviderName = orElse (loggedInProviderName newInfo) (loggedInProviderName this),
      userProfile = orElse (userProfile newInfo) (userProfile this)\<rparr>"

text \<open>
  The user object that \<open>userFactory.makeUser\<close> builds from its four arguments. The
  non-null assertions of the source (\<open>this.authInfo.userId!\<close>) are erased at run
  time, so an undefined user id reaches the factory as it is: the fields are options.
\<close>

record CoreStitchUser =
  user_id :: "string option"
  user_loggedInProviderType :: "string option"
  user_loggedInProviderName :: "string option"
  user_profile :: "StitchUserProfileImpl option"

definition makeUser ::
  "string option \<Rightarrow> string option \<Rightarrow> string option \<Rightarrow> StitchUserProfileImpl option
   \<Rightarrow> CoreStitchUser" where
  "makeUser i t n p =
     \<lparr>user_id = i, user_loggedInProviderType = t, user_loggedInProviderName = n,
      user_profile = p\<rparr>"

datatype Method = GET | POST | DELETE

text \<open>
  The document of a login request: the credential's material with the device
  information attached under \<open>options.device\<close>.
\<close>

record LoginDocument =
  doc_material :: "(string \<times> string) list"
  doc_options_device :: "(string \<times> string) list"

record StitchRequest =
  req_method :: Method
  req_path :: string
  req_headers :: "string \<rightharpoonup> string"
  req_document :: "LoginDocument option"
  req_startedAt :: int

record StitchAuthRequest =
  httpMethod :: Method
  path :: string
  headers :: "string \<rightharpoonup> string"
  document :: "LoginDocument option"
  startedAt :: int
  useRefreshToken :: bool
  shouldRefreshOnFailure :: bool

record Response =
  statusCode :: nat
  body :: "string option"

record JWT =
  expires :: int
  issuedAt :: int

record ApiAuthInfo =
  api_userId :: "string option"
  api_deviceId :: "string option"
  api_accessToken :: "string option"
  api_refreshToken :: "string option"

definition toAuthInfo :: "ApiAuthInfo \<Rightarrow> AuthInfo" where
  "toAuthInfo a =
     \<lparr>userId = api_userId a, deviceId = api_deviceId a, accessToken = api_accessToken a,
      refreshToken = api_refreshToken a, loggedInProviderType = None,
      loggedInProviderName = None, userProfile = None\<rparr>"

record ProviderCapabilities =
  reusesExistingSession :: bool

text \<open>
  A \<open>StitchCredential\<close>; \<open>authResponse\<close> is defined exactly for a
  \<open>StitchAuthResponseCredential\<close>, and then holds its \<open>authInfo\<close> and \<open>asLink\<close>.
\<close>

record StitchCredential =
  providerName :: string
  providerType :: string
  material :: "(string \<times> string) list"
  providerCapabilities :: ProviderCapabilities
  authResponse :: "(AuthInfo \<times> bool) option"

subsection \<open>The collaborators\<close>

text \<open>
  What the class calls and does not define. \<open>transport env n r\<close> is the outcome of the
  request \<open>r\<close> when it is the \<open>n\<close>-th request handed to \<open>requestClient.doRequest\<close>;
  \<open>storageAccepts env n\<close> says whether the \<open>n\<close>-th call of \<open>writeToStorage\<close> succeeds;
  a decoder returns \<open>None\<close> where the source's decoder throws; \<open>clock env n\<close> is the
  time at which a request built after \<open>n\<close> dispatched requests is created; and
  \<open>defaultShouldRefreshOnFailure\<close> is the value a \<open>StitchAuthRequest.Builder\<close> gives the
  flag when \<open>withShouldRefreshOnFailure\<close> is not called.
\<close>

record Env =
  transport :: "nat \<Rightarrow> StitchRequest \<Rightarrow> StitchError + Response"
  storageAccepts :: "nat \<Rightarrow> bool"
  decodeJWT :: "string \<Rightarrow> JWT option"
  decodeApiAuthInfo :: "string \<Rightarrow> ApiAuthInfo option"
  decodeProfile :: "string \<Rightarrow> StitchUserProfileImpl option"
  sessionRoute :: string
  profileRoute :: string
  getAuthProviderLoginRoute :: "string \<Rightarrow> string"
  getAuthProviderLinkRoute :: "string \<Rightarrow> string"
  deviceInfo :: "(string \<times> string) list"
  clock :: "nat \<Rightarrow> int"
  defaultShouldRefreshOnFailure :: bool

subsection \<open>The object\<close>

text \<open>
  \<open>authInfo\<close> and \<open>currentUser\<close> are the two fields of the class. \<open>storage\<close> is what the
  storage holds (the last auth info written with success), \<open>sent\<close> the requests handed
  to the transport, oldest first, \<open>writeAttempts\<close> the number of calls of
  \<open>writeToStorage\<close>, and \<open>authEvents\<close> the number of calls of \<open>onAuthEvent\<close>.
\<close>

record CoreStitchAuth =
  authInfo :: AuthInfo
  currentUser :: "CoreStitchUser option"
  storage :: "AuthInfo option"
  sent :: "StitchRequest list"
  writeAttempts :: nat
  authEvents :: nat

type_synonym 'a outcome = "(StitchError + 'a) \<times> CoreStitchAuth"

definition isLoggedIn :: "CoreStitchAuth \<Rightarrow> bool" where
  "isLoggedIn st = (currentUser st \<noteq> None)"

definition user :: "CoreStitchAuth \<Rightarrow> CoreStitchUser option" where
  "user st = currentUser st"

text \<open>
  Modelled from the spec: \<open>writeToStorage\<close> is not among the sources. It stores the auth
  info, or throws and stores nothing.
\<close>

definition writeToStorage :: "Env \<Rightarrow> CoreStitchAuth \<Rightarrow> AuthInfo \<Rightarrow> bool \<times> CoreStitchAuth" where
  "writeToStorage env st info =
     (if storageAccepts env (writeAttempts st)
      then (True, st\<lparr>storage := Some info, writeAttempts := Suc (writeAttempts st)\<rparr>)
      else (False, st\<lparr>writeAttempts := Suc (writeAttempts st)\<rparr>))"

definition onAuthEvent :: "CoreStitchAuth \<Rightarrow> CoreStitchAuth" where
  "onAuthEvent st = st\<lparr>authEvents := Suc (authEvents st)\<rparr>"

definition clearAuth :: "Env \<Rightarrow> CoreStitchAuth \<Rightarrow> unit outcome" where
  "clearAuth env st =
     (if \<not> isLoggedIn st then (Inr (), st)
      else
        (let st1 = st\<lparr>authInfo := loggedOut (authInfo st)\<rparr> in
         case writeToStorage env st1 (authInfo st1) of
           (False, st2) \<Rightarrow> (Inl (StitchClientError CouldNotPersistAuthInfo), st2)
         | (True, st2) \<Rightarrow> (Inr (), onAuthEvent (st2\<lparr>currentUser := None\<rparr>))))"

text \<open>
  \<open>Headers.getAuthorizationBearer\<close>; an undefined token is formatted as the text
  \<open>undefined\<close>, as a template string does.
\<close>

definition AUTHORIZATION :: string where
  "AUTHORIZATION = ''Authorization''"

definition getAuthorizationBearer :: "string option \<Rightarrow> string" where
  "getAuthorizationBearer t =
     (case t of None \<Rightarrow> ''Bearer undefined'' | Some v \<Rightarrow> ''Bearer '' @ v)"

definition build :: "StitchAuthRequest \<Rightarrow> (string \<rightharpoonup> string) \<Rightarrow> StitchRequest" where
  "build r h =
     \<lparr>req_method = httpMethod r, req_path = path r, req_headers = h,
      req_document = document r, req_startedAt = startedAt r\<rparr>"

text \<open>
  \<open>prepareAuthRequest\<close> writes the header into the header object of the request's
  builder (the source notes that it is not a copy); a later write to the same key
  replaces the value, which is what the map update does.
\<close>

definition prepareAuthRequest :: "CoreStitchAuth \<Rightarrow> StitchAuthRequest \<Rightarrow> StitchError + StitchRequest" where
  "prepareAuthRequest st stitchReq =
     (if \<not> isLoggedIn st then Inl (StitchClientError MustAuthenticateFirst)
      else if useRefreshToken stitchReq
      then Inr (build stitchReq
             ((headers stitchReq)(AUTHORIZATION \<mapsto> getAuthorizationBearer (refreshToken (authInfo st)))))
      else Inr (build stitchReq
             ((headers stitchReq)(AUTHORIZATION \<mapsto> getAuthorizationBearer (accessToken (authInfo st))))))"

definition doRequest :: "Env \<Rightarrow> CoreStitchAuth \<Rightarrow> StitchRequest \<Rightarrow> Response outcome" where
  "doRequest env st r = (transport env (length (sent st)) r, st\<lparr>sent := sent st @ [r]\<rparr>)"

definition isInvalidSession :: "StitchError \<Rightarrow> bool" where
  "isInvalidSession ex =
     (case ex of StitchServiceError m c \<Rightarrow> c = InvalidSession | _ \<Rightarrow> False)"

text \<open>
  The request of \<open>refreshAccessToken\<close>: a POST to the session route that carries the
  refresh token.
\<close>

definition refreshRequest :: "Env \<Rightarrow> CoreStitchAuth \<Rightarrow> StitchAuthRequest" where
  "refreshRequest env st =
     \<lparr>httpMethod = POST, path = sessionRoute env, headers = Map.empty, document = None,
      startedAt = clock env (length (sent st)), useRefreshToken = True,
      shouldRefreshOnFailure = defaultShouldRefreshOnFailure env\<rparr>"

definition parseApiAuthInfo :: "Env \<Rightarrow> string option \<Rightarrow> ApiAuthInfo option" where
  "parseApiAuthInfo env b = (case b of None \<Rightarrow> None | Some s \<Rightarrow> decodeApiAuthInfo env s)"

text \<open>
  The \<open>try\<close> block of \<open>tryRefreshAccessToken\<close>: true when the access token decodes and
  was issued at or after the start of the request; a decoder that throws is swallowed.
\<close>

definition issuedSince :: "Env \<Rightarrow> CoreStitchAuth \<Rightarrow> int \<Rightarrow> bool" where
  "issuedSince env st reqStartedAt =
     (case accessToken (authInfo st) of
        None \<Rightarrow> False
      | Some t \<Rightarrow> (case decodeJWT env t of
                    None \<Rightarrow> False
                  | Some jwt \<Rightarrow> issuedAt jwt \<ge> reqStartedAt))"

text \<open>
  How often a request can still lead to another authenticated request: never when it
  carries the refresh token, once (the refresh) and once more (the retry) when it may
  refresh on failure. The recursion below terminates by this measure.
\<close>

definition retryLevel :: "StitchAuthRequest \<Rightarrow> nat" where
  "retryLevel r = (if useRefreshToken r then 0 else if shouldRefreshOnFailure r then 2 else 1)"

function doAuthenticatedRequest :: "Env \<Rightarrow> CoreStitchAuth \<Rightarrow> StitchAuthRequest \<Rightarrow> Response outcome"
  and handleAuthFailure ::
    "Env \<Rightarrow> CoreStitchAuth \<Rightarrow> StitchError \<Rightarrow> StitchAuthRequest \<Rightarrow> Response outcome"
  and tryRefreshAccessToken :: "Env \<Rightarrow> CoreStitchAuth \<Rightarrow> int \<Rightarrow> unit outcome"
  and refreshAccessToken :: "Env \<Rightarrow> CoreStitchAuth \<Rightarrow> unit outcome"
where
  "doAuthenticatedRequest env st stitchReq =
     (case prepareAuthRequest st stitchReq of
        Inl e \<Rightarrow> (Inl e, st)
      | Inr r \<Rightarrow>
          (case doRequest env st r of
             (Inr response, st1) \<Rightarrow> (Inr response, st1)
           | (Inl err, st1) \<Rightarrow> handleAuthFailure env st1 err stitchReq))"
| "handleAuthFailure env st ex req =
     (if \<not> isInvalidSession ex then (Inl ex, st)
      else if useRefreshToken req \<or> \<not> shouldRefreshOnFailure req then
        (case clearAuth env st of
           (Inl e, st1) \<Rightarrow> (Inl e, st1)
         | (Inr u, st1) \<Rightarrow> (Inl ex, st1))
      else
        (case tryRefreshAccessToken env st (startedAt req) of
           (Inl e, st1) \<Rightarrow> (Inl e, st1)
         | (Inr u, st1) \<Rightarrow>
             doAuthenticatedRequest env st1 (req\<lparr>shouldRefreshOnFailure := False\<rparr>)))"
| "tryRefreshAccessToken env st reqStartedAt =
     (if \<not> isLoggedIn st then (Inl (StitchClientError LoggedOutDuringRequest), st)
      else if issuedSince env st reqStartedAt then (Inr (), st)
      else refreshAccessToken env st)"
| "refreshAccessToken env st =
     (case doAuthenticatedRequest env st (refreshRequest env st) of
        (Inl e, st1) \<Rightarrow> (Inl e, st1)
      | (Inr response, st1) \<Rightarrow>
          (case parseApiAuthInfo env (body response) of
             None \<Rightarrow> (Inl (StitchRequestError (JSError ''decode'') DECODING_ERROR), st1)
           | Some partialInfo \<Rightarrow>
               (let st2 = st1\<lparr>authInfo := merge (authInfo st1) (toAuthInfo partialInfo)\<rparr> in
                case writeToStorage env st2 (authInfo st2) of
                  (False, st3) \<Rightarrow> (Inl (StitchClientError CouldNotPersistAuthInfo), st3)
                | (True, st3) \<Rightarrow> (Inr (), st3))))"
  by pat_completeness auto

termination
  by (relation "measure (\<lambda>x. case x of
          Inl (Inl (env, st, r)) \<Rightarrow> 4 * retryLevel r + 1
        | Inl (Inr (env, st, ex, r)) \<Rightarrow> 4 * retryLevel r
        | Inr (Inl (env, st, t)) \<Rightarrow> 3
        | Inr (Inr (env, st)) \<Rightarrow> 2)")
     (auto simp: retryLevel_def refreshRequest_def)

declare doAuthenticatedRequest.simps [simp del] handleAuthFailure.simps [simp del]
  tryRefreshAccessToken.simps [simp del] refreshAccessToken.simps [simp del]

subsection \<open>Construction\<close>

definition prepUser :: "CoreStitchAuth \<Rightarrow> CoreStitchAuth" where
  "prepUser st =
     (if userId (authInfo st) \<noteq> None
      then st\<lparr>currentUser :=
             Some (makeUser (userId (authInfo st)) (loggedInProviderType (authInfo st))
                     (loggedInProviderName (authInfo st)) (userProfile (authInfo st)))\<rparr>
      else st)"

text \<open>
  The constructor; its argument is the outcome of \<open>readFromStorage\<close>: \<open>None\<close> when
  it throws, \<open>Some None\<close> when nothing is stored.
\<close>

definition newCoreStitchAuth :: "AuthInfo option option \<Rightarrow> StitchError + CoreStitchAuth" where
  "newCoreStitchAuth stored =
     (case stored of
        None \<Rightarrow> Inl (StitchClientError CouldNotLoadPersistedAuthInfo)
      | Some info \<Rightarrow>
          Inr (prepUser
            \<lparr>authInfo = (case info of None \<Rightarrow> empty_AuthInfo | Some i \<Rightarrow> i),
             currentUser = None, storage = info, sent = [], writeAttempts = 0,
             authEvents = 0\<rparr>))"

subsection \<open>Device id\<close>

definition hasDeviceId :: "CoreStitchAuth \<Rightarrow> bool" where
  "hasDeviceId st =
     (deviceId (authInfo st) \<noteq> None \<and>
      deviceId (authInfo st) \<noteq> Some '''' \<and>
      deviceId (authInfo st) \<noteq> Some ''000000000000000000000000'')"

definition getDeviceId :: "CoreStitchAuth \<Rightarrow> string option" where
  "getDeviceId st = (if \<not> hasDeviceId st then None else deviceId (authInfo st))"

subsection \<open>Logout\<close>

definition logoutRequest :: "Env \<Rightarrow> CoreStitchAuth \<Rightarrow> StitchAuthRequest" where
  "logoutRequest env st =
     \<lparr>httpMethod = DELETE, path = sessionRoute env, headers = Map.empty, document = None,
      startedAt = clock env (length (sent st)), useRefreshToken = True,
      shouldRefreshOnFailure = defaultShouldRefreshOnFailure env\<rparr>"

definition doLogout :: "Env \<Rightarrow> CoreStitchAuth \<Rightarrow> unit outcome" where
  "doLogout env st =
     (case doAuthenticatedRequest env st (logoutRequest env st) of
        (Inl e, st1) \<Rightarrow> (Inl e, st1)
      | (Inr response, st1) \<Rightarrow> (Inr (), st1))"

text \<open>
  The two handlers that \<open>logoutInternal\<close> chains to \<open>doLogout()\<close>: \<open>then\<close> clears the
  authentication state, and \<open>catch\<close>, which also sees what the \<open>then\<close> handler throws,
  clears it again.
\<close>

definition logoutHandlers :: "Env \<Rightarrow> unit outcome \<Rightarrow> unit outcome" where
  "logoutHandlers env r =
     (case r of
        (Inr u, st1) \<Rightarrow>
          (case clearAuth env st1 of
             (Inl e, st2) \<Rightarrow> clearAuth env st2
           | (Inr u', st2) \<Rightarrow> (Inr (), st2))
      | (Inl e, st1) \<Rightarrow> clearAuth env st1)"

definition logoutInternal :: "Env \<Rightarrow> CoreStitchAuth \<Rightarrow> unit outcome" where
  "logoutInternal env st =
     (if \<not> isLoggedIn st then (Inr (), st)
      else logoutHandlers env (doLogout env st))"

subsection \<open>Login and link\<close>

definition isStitchError :: "StitchError \<Rightarrow> bool" where
  "isStitchError err = (case err of JSError m \<Rightarrow> False | _ \<Rightarrow> True)"

definition profileRequest :: "Env \<Rightarrow> CoreStitchAuth \<Rightarrow> StitchAuthRequest" where
  "profileRequest env st =
     \<lparr>httpMethod = GET, path = profileRoute env, headers = Map.empty, document = None,
      startedAt = clock env (length (sent st)), useRefreshToken = False,
      shouldRefreshOnFailure = defaultShouldRefreshOnFailure env\<rparr>"

definition parseProfile :: "Env \<Rightarrow> string option \<Rightarrow> StitchUserProfileImpl option" where
  "parseProfile env b = (case b of None \<Rightarrow> None | Some s \<Rightarrow> decodeProfile env s)"

definition doGetUserProfile :: "Env \<Rightarrow> CoreStitchAuth \<Rightarrow> StitchUserProfileImpl outcome" where
  "doGetUserProfile env st =
     (case doAuthenticatedRequest env st (profileRequest env st) of
        (Inl err, st1) \<Rightarrow>
          (if isStitchError err then (Inl err, st1)
           else (Inl (StitchRequestError err DECODING_ERROR), st1))
      | (Inr response, st1) \<Rightarrow>
          (case parseProfile env (body response) of
             None \<Rightarrow> (Inl (StitchRequestError (JSError ''decode'') DECODING_ERROR), st1)
           | Some profile \<Rightarrow> (Inr profile, st1)))"

text \<open>
  The \<open>catch\<close> handler of \<open>processLogin\<close>; \<open>oldInfo\<close> and \<open>oldUser\<close> are the values
  saved when \<open>processLogin\<close> was entered.
\<close>

definition processLoginRejected ::
  "Env \<Rightarrow> AuthInfo \<Rightarrow> CoreStitchUser option \<Rightarrow> bool \<Rightarrow> StitchError \<Rightarrow> CoreStitchAuth
   \<Rightarrow> CoreStitchUser outcome" where
  "processLoginRejected env oldInfo oldUser asLinkRequest err st =
     (if asLinkRequest
      then (Inl err, st\<lparr>authInfo := oldInfo, currentUser := oldUser\<rparr>)
      else
        (case clearAuth env st of
           (Inl e, st1) \<Rightarrow> (Inl e, st1)
         | (Inr u, st1) \<Rightarrow> (Inl err, st1)))"

definition processLogin ::
  "Env \<Rightarrow> CoreStitchAuth \<Rightarrow> StitchCredential \<Rightarrow> AuthInfo \<Rightarrow> bool \<Rightarrow> CoreStitchUser outcome" where
  "processLogin env st credential newAuthInfo asLinkRequest =
     (let oldInfo = authInfo st;
          oldUser = currentUser st;
          newAuthInfo1 = merge (authInfo st)
            \<lparr>userId = userId newAuthInfo, deviceId = deviceId newAuthInfo,
             accessToken = accessToken newAuthInfo, refreshToken = refreshToken newAuthInfo,
             loggedInProviderType = Some (providerType credential),
             loggedInProviderName = Some (providerName credential),
             userProfile = None\<rparr>;
          st1 = st\<lparr>authInfo := newAuthInfo1,
                   currentUser := Some (makeUser (userId newAuthInfo1)
                     (Some (providerType credential)) (Some (providerName credential)) None)\<rparr>
      in case doGetUserProfile env st1 of
           (Inl err, st2) \<Rightarrow> processLoginRejected env oldInfo oldUser asLinkRequest err st2
         | (Inr profile, st2) \<Rightarrow>
             (let newAuthInfo2 = merge newAuthInfo1
                    \<lparr>userId = userId newAuthInfo1, deviceId = deviceId newAuthInfo1,
                     accessToken = accessToken newAuthInfo1,
                     refreshToken = refreshToken newAuthInfo1,
                     loggedInProviderType = Some (providerType credential),
                     loggedInProviderName = Some (providerName credential),
                     userProfile = Some profile\<rparr>
              in case writeToStorage env st2 newAuthInfo2 of
                   (False, st3) \<Rightarrow>
                     processLoginRejected env oldInfo oldUser asLinkRequest
                       (StitchClientError CouldNotPersistAuthInfo) st3
                 | (True, st3) \<Rightarrow>
                     (let u = makeUser (userId newAuthInfo2) (Some (providerType credential))
                                (Some (providerName credential)) (Some profile)
                      in (Inr u, st3\<lparr>authInfo := newAuthInfo2, currentUser := Some u\<rparr>))))"

definition processLoginResponse ::
  "Env \<Rightarrow> CoreStitchAuth \<Rightarrow> StitchCredential \<Rightarrow> Response \<Rightarrow> bool \<Rightarrow> CoreStitchUser outcome" where
  "processLoginResponse env st credential response asLinkRequest =
     (if body response = None \<or> body response = Some ''''
      then (Inl (StitchRequestError (StitchServiceError ''empty body'' Unknown) DECODING_ERROR), st)
      else
        (case parseApiAuthInfo env (body response) of
           None \<Rightarrow> (Inl (StitchRequestError (JSError ''decode'') DECODING_ERROR), st)
         | Some info \<Rightarrow> processLogin env st credential (toAuthInfo info) asLinkRequest))"

definition loginDocument :: "Env \<Rightarrow> StitchCredential \<Rightarrow> LoginDocument" where
  "loginDocument env credential =
     \<lparr>doc_material = material credential, doc_options_device = deviceInfo env\<rparr>"

definition linkRequest :: "Env \<Rightarrow> CoreStitchAuth \<Rightarrow> StitchCredential \<Rightarrow> StitchAuthRequest" where
  "linkRequest env st credential =
     \<lparr>httpMethod = POST, path = getAuthProviderLinkRoute env (providerName credential),
      headers = Map.empty, document = Some (loginDocument env credential),
      startedAt = clock env (length (sent st)), useRefreshToken = False,
      shouldRefreshOnFailure = defaultShouldRefreshOnFailure env\<rparr>"

definition loginRequest :: "Env \<Rightarrow> CoreStitchAuth \<Rightarrow> StitchCredential \<Rightarrow> StitchRequest" where
  "loginRequest env st credential =
     \<lparr>req_method = POST, req_path = getAuthProviderLoginRoute env (providerName credential),
      req_headers = Map.empty, req_document = Some (loginDocument env credential),
      req_startedAt = clock env (length (sent st))\<rparr>"

definition doLoginRequest ::
  "Env \<Rightarrow> CoreStitchAuth \<Rightarrow> StitchCredential \<Rightarrow> bool \<Rightarrow> Response outcome" where
  "doLoginRequest env st credential asLinkRequest =
     (if \<not> asLinkRequest then doRequest env st (loginRequest env st credential)
      else doAuthenticatedRequest env st (linkRequest env st credential))"

definition doLogin ::
  "Env \<Rightarrow> CoreStitchAuth \<Rightarrow> StitchCredential \<Rightarrow> bool \<Rightarrow> CoreStitchUser outcome" where
  "doLogin env st credential asLinkRequest =
     (case doLoginRequest env st credential asLinkRequest of
        (Inl e, st1) \<Rightarrow> (Inl e, st1)
      | (Inr response, st1) \<Rightarrow>
          (case processLoginResponse env st1 credential response asLinkRequest of
             (Inl e, st2) \<Rightarrow> (Inl e, st2)
           | (Inr u, st2) \<Rightarrow> (Inr u, onAuthEvent st2)))"

definition linkUserWithCredentialInternal ::
  "Env \<Rightarrow> CoreStitchAuth \<Rightarrow> CoreStitchUser \<Rightarrow> StitchCredential \<Rightarrow> CoreStitchUser outcome" where
  "linkUserWithCredentialInternal env st usr credential =
     (case currentUser st of
        None \<Rightarrow> doLogin env st credential True
      | Some cur \<Rightarrow>
          (if user_id usr \<noteq> user_id cur
           then (Inl (StitchClientError UserNoLongerValid), st)
           else doLogin env st credential True))"

text \<open>
  \<open>loginWithCredentialInternal\<close> calls \<open>this.logoutInternal()\<close> and drops the promise:
  the session-delete request is dispatched at once, and the handlers of \<open>logoutInternal\<close>
  run when the transport settles it, which the login that follows does not wait for.
  \<open>logoutInternalStart\<close> is \<open>logoutInternal\<close> up to the dispatch (it returns the request
  and the outcome the transport will deliver), \<open>logoutInternalSettle\<close> is the rest.
\<close>

definition logoutInternalStart ::
  "Env \<Rightarrow> CoreStitchAuth
   \<Rightarrow> (StitchAuthRequest \<times> (StitchError + Response)) option \<times> CoreStitchAuth" where
  "logoutInternalStart env st =
     (if \<not> isLoggedIn st then (None, st)
      else
        (case prepareAuthRequest st (logoutRequest env st) of
           Inl e \<Rightarrow> (None, st)
         | Inr r \<Rightarrow>
             (case doRequest env st r of
                (res, st1) \<Rightarrow> (Some (logoutRequest env st, res), st1))))"

definition logoutInternalSettle ::
  "Env \<Rightarrow> CoreStitchAuth \<Rightarrow> StitchAuthRequest \<times> (StitchError + Response) \<Rightarrow> unit outcome" where
  "logoutInternalSettle env st pending =
     (case pending of
        (req, Inr response) \<Rightarrow> logoutHandlers env (Inr (), st)
      | (req, Inl err) \<Rightarrow>
          logoutHandlers env
            (case handleAuthFailure env st err req of
               (Inl e, st1) \<Rightarrow> (Inl e, st1)
             | (Inr response, st1) \<Rightarrow> (Inr (), st1)))"

text \<open>
  The session-delete request may also settle while the login is under way. A pending
  logout is the request and the outcome that \<open>logoutInternalStart\<close> returns, with
  the number of requests that are still dispatched before it settles: when that
  number is 0, the handlers of the logout run right after the next request is
  dispatched, before the response to that request is handled. The handlers of the
  logout are taken to run together, with no handler of the login between them.

  The functions below are the functions of the login with the pending logout passed
  along: each is the function above of the same name, with \<open>doRequestP\<close> in the
  place of \<open>doRequest\<close>.
\<close>

type_synonym PendingLogout = "(StitchAuthRequest \<times> (StitchError + Response)) \<times> nat"

type_synonym 'a outcomeP = "(StitchError + 'a) \<times> CoreStitchAuth \<times> PendingLogout option"

definition settleAfterDispatch ::
  "Env \<Rightarrow> PendingLogout option \<Rightarrow> CoreStitchAuth \<Rightarrow> CoreStitchAuth \<times> PendingLogout option" where
  "settleAfterDispatch env pend st =
     (case pend of
        None \<Rightarrow> (st, None)
      | Some (p, 0) \<Rightarrow> (snd (logoutInternalSettle env st p), None)
      | Some (p, Suc n) \<Rightarrow> (st, Some (p, n)))"

definition doRequestP ::
  "Env \<Rightarrow> PendingLogout option \<Rightarrow> CoreStitchAuth \<Rightarrow> StitchRequest \<Rightarrow> Response outcomeP" where
  "doRequestP env pend st r =
     (case doRequest env st r of
        (res, st1) \<Rightarrow>
          (case settleAfterDispatch env pend st1 of
             (st2, pend1) \<Rightarrow> (res, st2, pend1)))"

function doAuthenticatedRequestP ::
    "Env \<Rightarrow> PendingLogout option \<Rightarrow> CoreStitchAuth \<Rightarrow> StitchAuthRequest \<Rightarrow> Response outcomeP"
  and handleAuthFailureP ::
    "Env \<Rightarrow> PendingLogout option \<Rightarrow> CoreStitchAuth \<Rightarrow> StitchError \<Rightarrow> StitchAuthRequest
     \<Rightarrow> Response outcomeP"
  and tryRefreshAccessTokenP ::
    "Env \<Rightarrow> PendingLogout option \<Rightarrow> CoreStitchAuth \<Rightarrow> int \<Rightarrow> unit outcomeP"
  and refreshAccessTokenP :: "Env \<Rightarrow> PendingLogout option \<Rightarrow> CoreStitchAuth \<Rightarrow> unit outcomeP"
where
  "doAuthenticatedRequestP env pend st stitchReq =
     (case prepareAuthRequest st stitchReq of
        Inl e \<Rightarrow> (Inl e, st, pend)
      | Inr r \<Rightarrow>
          (case doRequestP env pend st r of
             (Inr response, st1, pend1) \<Rightarrow> (Inr response, st1, pend1)
           | (Inl err, st1, pend1) \<Rightarrow> handleAuthFailureP env pend1 st1 err stitchReq))"
| "handleAuthFailureP env pend st ex req =
     (if \<not> isInvalidSession ex then (Inl ex, st, pend)
      else if useRefreshToken req \<or> \<not> shouldRefreshOnFailure req then
        (case clearAuth env st of
           (Inl e, st1) \<Rightarrow> (Inl e, st1, pend)
         | (Inr u, st1) \<Rightarrow> (Inl ex, st1, pend))
      else
        (case tryRefreshAccessTokenP env pend st (startedAt req) of
           (Inl e, st1, pend1) \<Rightarrow> (Inl e, st1, pend1)
         | (Inr u, st1, pend1) \<Rightarrow>
             doAuthenticatedRequestP env pend1 st1 (req\<lparr>shouldRefreshOnFailure := False\<rparr>)))"
| "tryRefreshAccessTokenP env pend st reqStartedAt =
     (if \<not> isLoggedIn st then (Inl (StitchClientError LoggedOutDuringRequest), st, pend)
      else if issuedSince env st reqStartedAt then (Inr (), st, pend)
      else refreshAccessTokenP env pend st)"
| "refreshAccessTokenP env pend st =
     (case doAuthenticatedRequestP env pend st (refreshRequest env st) of
        (Inl e, st1, pend1) \<Rightarrow> (Inl e, st1, pend1)
      | (Inr response, st1, pend1) \<Rightarrow>
          (case parseApiAuthInfo env (body response) of
             None \<Rightarrow> (Inl (StitchRequestError (JSError ''decode'') DECODING_ERROR), st1, pend1)
           | Some partialInfo \<Rightarrow>
               (let st2 = st1\<lparr>authInfo := merge (authInfo st1) (toAuthInfo partialInfo)\<rparr> in
                case writeToStorage env st2 (authInfo st2) of
                  (False, st3) \<Rightarrow> (Inl (StitchClientError CouldNotPersistAuthInfo), st3, pend1)
                | (True, st3) \<Rightarrow> (Inr (), st3, pend1))))"
  by pat_completeness auto

termination
  by (relation "measure (\<lambda>x. case x of
          Inl (Inl (env, pend, st, r)) \<Rightarrow> 4 * retryLevel r + 1
        | Inl (Inr (env, pend, st, ex, r)) \<Rightarrow> 4 * retryLevel r
        | Inr (Inl (env, pend, st, t)) \<Rightarrow> 3
        | Inr (Inr (env, pend, st)) \<Rightarrow> 2)")
     (auto simp: retryLevel_def refreshRequest_def)

declare doAuthenticatedRequestP.simps [simp del] handleAuthFailureP.simps [simp del]
  tryRefreshAccessTokenP.simps [simp del] refreshAccessTokenP.simps [simp del]

definition doGetUserProfileP ::
  "Env \<Rightarrow> PendingLogout option \<Rightarrow> CoreStitchAuth \<Rightarrow> StitchUserProfileImpl outcomeP" where
  "doGetUserProfileP env pend st =
     (case doAuthenticatedRequestP env pend st (profileRequest env st) of
        (Inl err, st1, pend1) \<Rightarrow>
          (if isStitchError err then (Inl err, st1, pend1)
           else (Inl (StitchRequestError err DECODING_ERROR), st1, pend1))
      | (Inr response, st1, pend1) \<Rightarrow>
          (case parseProfile env (body response) of
             None \<Rightarrow> (Inl (StitchRequestError (JSError ''decode'') DECODING_ERROR), st1, pend1)
           | Some profile \<Rightarrow> (Inr profile, st1, pend1)))"

definition processLoginP ::
  "Env \<Rightarrow> PendingLogout option \<Rightarrow> CoreStitchAuth \<Rightarrow> StitchCredential \<Rightarrow> AuthInfo \<Rightarrow> bool
   \<Rightarrow> CoreStitchUser outcomeP" where
  "processLoginP env pend st credential newAuthInfo asLinkRequest =
     (let oldInfo = authInfo st;
          oldUser = currentUser st;
          newAuthInfo1 = merge (authInfo st)
            \<lparr>userId = userId newAuthInfo, deviceId = deviceId newAuthInfo,
             accessToken = accessToken newAuthInfo, refreshToken = refreshToken newAuthInfo,
             loggedInProviderType = Some (providerType credential),
             loggedInProviderName = Some (providerName credential),
             userProfile = None\<rparr>;
          st1 = st\<lparr>authInfo := newAuthInfo1,
                   currentUser := Some (makeUser (userId newAuthInfo1)
                     (Some (providerType credential)) (Some (providerName credential)) None)\<rparr>
      in case doGetUserProfileP env pend st1 of
           (Inl err, st2, pend2) \<Rightarrow>
             (case processLoginRejected env oldInfo oldUser asLinkRequest err st2 of
                (r, st3) \<Rightarrow> (r, st3, pend2))
         | (Inr profile, st2, pend2) \<Rightarrow>
             (let newAuthInfo2 = merge newAuthInfo1
                    \<lparr>userId = userId newAuthInfo1, deviceId = deviceId newAuthInfo1,
                     accessToken = accessToken newAuthInfo1,
                     refreshToken = refreshToken newAuthInfo1,
                     loggedInProviderType = Some (providerType credential),
                     loggedInProviderName = Some (providerName credential),
                     userProfile = Some profile\<rparr>
              in case writeToStorage env st2 newAuthInfo2 of
                   (False, st3) \<Rightarrow>
                     (case processLoginRejected env oldInfo oldUser asLinkRequest
                             (StitchClientError CouldNotPersistAuthInfo) st3 of
                        (r, st4) \<Rightarrow> (r, st4, pend2))
                 | (True, st3) \<Rightarrow>
                     (let u = makeUser (userId newAuthInfo2) (Some (providerType credential))
                                (Some (providerName credential)) (Some profile)
                      in (Inr u, st3\<lparr>authInfo := newAuthInfo2, currentUser := Some u\<rparr>, pend2))))"

definition processLoginResponseP ::
  "Env \<Rightarrow> PendingLogout option \<Rightarrow> CoreStitchAuth \<Rightarrow> StitchCredential \<Rightarrow> Response \<Rightarrow> bool
   \<Rightarrow> CoreStitchUser outcomeP" where
  "processLoginResponseP env pend st credential response asLinkRequest =
     (if body response = None \<or> body response = Some ''''
      then (Inl (StitchRequestError (StitchServiceError ''empty body'' Unknown) DECODING_ERROR),
            st, pend)
      else
        (case parseApiAuthInfo env (body response) of
           None \<Rightarrow> (Inl (StitchRequestError (JSError ''decode'') DECODING_ERROR), st, pend)
         | Some info \<Rightarrow> processLoginP env pend st credential (toAuthInfo info) asLinkRequest))"

definition doLoginRequestP ::
  "Env \<Rightarrow> PendingLogout option \<Rightarrow> CoreStitchAuth \<Rightarrow> StitchCredential \<Rightarrow> bool
   \<Rightarrow> Response outcomeP" where
  "doLoginRequestP env pend st credential asLinkRequest =
     (if \<not> asLinkRequest then doRequestP env pend st (loginRequest env st credential)
      else doAuthenticatedRequestP env pend st (linkRequest env st credential))"

definition doLoginP ::
  "Env \<Rightarrow> PendingLogout option \<Rightarrow> CoreStitchAuth \<Rightarrow> StitchCredential \<Rightarrow> bool
   \<Rightarrow> CoreStitchUser outcomeP" where
  "doLoginP env pend st credential asLinkRequest =
     (case doLoginRequestP env pend st credential asLinkRequest of
        (Inl e, st1, pend1) \<Rightarrow> (Inl e, st1, pend1)
      | (Inr response, st1, pend1) \<Rightarrow>
          (case processLoginResponseP env pend1 st1 credential response asLinkRequest of
             (Inl e, st2, pend2) \<Rightarrow> (Inl e, st2, pend2)
           | (Inr u, st2, pend2) \<Rightarrow> (Inr u, onAuthEvent st2, pend2)))"

definition settleAtEnd :: "Env \<Rightarrow> 'a outcomeP \<Rightarrow> 'a outcome" where
  "settleAtEnd env r =
     (case r of
        (x, st, None) \<Rightarrow> (x, st)
      | (x, st, Some (p, n)) \<Rightarrow> (x, snd (logoutInternalSettle env st p)))"

text \<open>
  The order in which the transport settles the dropped session-delete request and the
  requests of the login: before the login response is handled; while the login is
  under way, after \<open>n + 1\<close> further requests of the login have been dispatched
  (\<open>LogoutSettlesDuring 0\<close> is during the profile request, \<open>LogoutSettlesDuring 1\<close>
  during the refresh or the retry that follows it), or else after the login when the
  login sends fewer requests; or after the whole login is done. Settling the
  session-delete sends no request (it carries the refresh token, so it is never
  retried), and the login request carries no token; hence running the settlement
  before \<open>doLogin\<close> dispatches its request, as the first order does, gives the log of
  requests and the state that the source gives when the session-delete settles first.
\<close>

datatype SettleOrder = LogoutSettlesFirst | LogoutSettlesDuring nat | LoginSettlesFirst

definition loginWithCredentialInternal ::
  "Env \<Rightarrow> SettleOrder \<Rightarrow> CoreStitchAuth \<Rightarrow> StitchCredential \<Rightarrow> CoreStitchUser outcome" where
  "loginWithCredentialInternal env order st credential =
     (case authResponse credential of
        Some (info, asLink) \<Rightarrow> processLogin env st credential info asLink
      | None \<Rightarrow>
          (case currentUser st of
             None \<Rightarrow> doLogin env st credential False
           | Some cur \<Rightarrow>
               (if reusesExistingSession (providerCapabilities credential) \<and>
                   Some (providerType credential) = user_loggedInProviderType cur
                then (Inr cur, st)
                else
                  (case logoutInternalStart env st of
                     (None, st1) \<Rightarrow> doLogin env st1 credential False
                   | (Some pending, st1) \<Rightarrow>
                       (case order of
                          LogoutSettlesFirst \<Rightarrow>
                            doLogin env (snd (logoutInternalSettle env st1 pending))
                              credential False
                        | LogoutSettlesDuring n \<Rightarrow>
                            settleAtEnd env
                              (doLoginP env (Some (pending, Suc n)) st1 credential False)
                        | LoginSettlesFirst \<Rightarrow>
                            (case doLogin env st1 credential False of
                               (r, st2) \<Rightarrow>
                                 (r, snd (logoutInternalSettle env st2 pending))))))))"

subsection \<open>Auxiliary notions for the statements\<close>

text \<open>
  The request that \<open>prepareAuthRequest\<close> builds when a user is logged in: the request
  with the bearer token in its \<open>Authorization\<close> header.
\<close>

definition prepared :: "CoreStitchAuth \<Rightarrow> StitchAuthRequest \<Rightarrow> StitchRequest" where
  "prepared st r =
     build r ((headers r)(AUTHORIZATION \<mapsto> getAuthorizationBearer
       (if useRefreshToken r then refreshToken (authInfo st) else accessToken (authInfo st))))"

text \<open>The transport rejects with an error that is not an invalid session.\<close>

definition rejectsOtherwise :: "StitchError + Response \<Rightarrow> bool" where
  "rejectsOtherwise r = (case r of Inl err \<Rightarrow> \<not> isInvalidSession err | Inr x \<Rightarrow> False)"

text \<open>
  The state that \<open>processLogin\<close> sets provisionally before it requests the profile:
  the new auth info merged into the current one, and a user without a profile.
\<close>

definition provisionalInfo :: "CoreStitchAuth \<Rightarrow> StitchCredential \<Rightarrow> AuthInfo \<Rightarrow> AuthInfo" where
  "provisionalInfo st credential newAuthInfo =
     merge (authInfo st)
       \<lparr>userId = userId newAuthInfo, deviceId = deviceId newAuthInfo,
        accessToken = accessToken newAuthInfo, refreshToken = refreshToken newAuthInfo,
        loggedInProviderType = Some (providerType credential),
        loggedInProviderName = Some (providerName credential),
        userProfile = None\<rparr>"

definition provisional :: "CoreStitchAuth \<Rightarrow> StitchCredential \<Rightarrow> AuthInfo \<Rightarrow> CoreStitchAuth" where
  "provisional st credential newAuthInfo =
     st\<lparr>authInfo := provisionalInfo st credential newAuthInfo,
        currentUser := Some (makeUser (userId (provisionalInfo st credential newAuthInfo))
          (Some (providerType credential)) (Some (providerName credential)) None)\<rparr>"

text \<open>
  The current user is as before, or there is none and the auth info is in its
  logged-out form.
\<close>

definition userKeptOrCleared :: "CoreStitchAuth \<Rightarrow> CoreStitchAuth \<Rightarrow> bool" where
  "userKeptOrCleared st st' \<longleftrightarrow>
     currentUser st' = currentUser st \<or>
     (currentUser st' = None \<and> authInfo st' = loggedOut (authInfo st'))"

text \<open>
  The equivalence of the specification: a user is logged in exactly when the auth
  info has a user id. (\<open>isLoggedIn\<close> is by definition that the user is defined.)
\<close>

definition userMatchesAuthInfo :: "CoreStitchAuth \<Rightarrow> bool" where
  "userMatchesAuthInfo st \<longleftrightarrow> (isLoggedIn st \<longleftrightarrow> userId (authInfo st) \<noteq> None)"

text \<open>Every login response that decodes carries a user id.\<close>

definition responsesCarryUserId :: "Env \<Rightarrow> bool" where
  "responsesCarryUserId env \<longleftrightarrow>
     (\<forall>s a. decodeApiAuthInfo env s = Some a \<longrightarrow> api_userId a \<noteq> None)"

subsection \<open>A concrete client\<close>

text \<open>
  A client logged in as \<open>u1\<close>, and an environment whose transport and storage answer
  from a list, call by call (a transport error and an accepted write once the list is
  used up). The token \<open>a2\<close> is the only one that decodes as a JWT, issued at time 1000.
\<close>

fun scripted :: "'a list \<Rightarrow> 'a \<Rightarrow> nat \<Rightarrow> 'a" where
  "scripted [] d n = d"
| "scripted (x # xs) d 0 = x"
| "scripted (x # xs) d (Suc n) = scripted xs d n"

definition exampleInfo :: AuthInfo where
  "exampleInfo =
     \<lparr>userId = Some ''u1'', deviceId = Some ''d1'', accessToken = Some ''a1'',
      refreshToken = Some ''r1'', loggedInProviderType = Some ''anon-user'',
      loggedInProviderName = Some ''anon-user'', userProfile = None\<rparr>"

definition exampleUser :: CoreStitchUser where
  "exampleUser = makeUser (Some ''u1'') (Some ''anon-user'') (Some ''anon-user'') None"

definition exampleAuth :: CoreStitchAuth where
  "exampleAuth =
     \<lparr>authInfo = exampleInfo, currentUser = Some exampleUser, storage = Some exampleInfo,
      sent = [], writeAttempts = 0, authEvents = 0\<rparr>"

definition freshAuth :: CoreStitchAuth where
  "freshAuth = exampleAuth\<lparr>authInfo := exampleInfo\<lparr>accessToken := Some ''a2''\<rparr>\<rparr>"

definition exampleEnv :: "(StitchError + Response) list \<Rightarrow> bool list \<Rightarrow> Env" where
  "exampleEnv responses writes =
     \<lparr>transport = (\<lambda>n r. scripted responses
         (Inl (StitchRequestError (JSError ''no response'') TRANSPORT_ERROR)) n),
      storageAccepts = scripted writes True,
      decodeJWT = (\<lambda>t. if t = ''a2'' then Some \<lparr>expires = 2000, issuedAt = 1000\<rparr> else None),
      decodeApiAuthInfo = (\<lambda>s.
         if s = ''session2''
         then Some \<lparr>api_userId = None, api_deviceId = None, api_accessToken = Some ''a2'',
                    api_refreshToken = None\<rparr>
         else if s = ''login2''
         then Some \<lparr>api_userId = Some ''u2'', api_deviceId = Some ''d1'',
                    api_accessToken = Some ''b1'', api_refreshToken = Some ''s1''\<rparr>
         else None),
      decodeProfile = (\<lambda>s. if s = ''alice'' then Some (Profile ''Alice'') else None),
      sessionRoute = ''/auth/session'',
      profileRoute = ''/auth/profile'',
      getAuthProviderLoginRoute = (\<lambda>n. ''/auth/providers/'' @ n @ ''/login''),
      getAuthProviderLinkRoute = (\<lambda>n. ''/auth/providers/'' @ n @ ''/login?link=true''),
      deviceInfo = [],
      clock = (\<lambda>n. 500),
      defaultShouldRefreshOnFailure = True\<rparr>"

definition loginEnv :: "(StitchError + Response) list \<Rightarrow> Env" where
  "loginEnv responses =
     (exampleEnv responses [])\<lparr>decodeApiAuthInfo := (\<lambda>s.
         if s = ''login2''
         then Some \<lparr>api_userId = Some ''u2'', api_deviceId = Some ''d1'',
                    api_accessToken = Some ''b1'', api_refreshToken = Some ''s1''\<rparr>
         else None)\<rparr>"

definition invalidSession :: "StitchError + Response" where
  "invalidSession = Inl (StitchServiceError ''invalid session'' InvalidSession)"

definition transportError :: "StitchError + 'a" where
  "transportError = Inl (StitchRequestError (JSError ''network'') TRANSPORT_ERROR)"

definition ok :: "string \<Rightarrow> StitchError + Response" where
  "ok b = Inr \<lparr>statusCode = 200, body = Some b\<rparr>"

definition exampleRequest :: StitchAuthRequest where
  "exampleRequest =
     \<lparr>httpMethod = GET, path = ''/functions/call'', headers = Map.empty, document = None,
      startedAt = 500, useRefreshToken = False, shouldRefreshOnFailure = True\<rparr>"

definition loggedOutAuth :: CoreStitchAuth where
  "loggedOutAuth =
     \<lparr>authInfo = empty_AuthInfo, currentUser = None, storage = None, sent = [],
      writeAttempts = 0, authEvents = 0\<rparr>"

definition login2Info :: AuthInfo where
  "login2Info =
     \<lparr>userId = Some ''u2'', deviceId = Some ''d1'', accessToken = Some ''b1'',
      refreshToken = Some ''s1'', loggedInProviderType = None, loggedInProviderName = None,
      userProfile = None\<rparr>"

definition passwordCredential :: StitchCredential where
  "passwordCredential =
     \<lparr>providerName = ''local-userpass'', providerType = ''local-userpass'',
      material = [(''username'', ''alice''), (''password'', ''secret'')],
      providerCapabilities = \<lparr>reusesExistingSession = False\<rparr>, authResponse = None\<rparr>"

definition anonymousCredential :: StitchCredential where
  "anonymousCredential =
     \<lparr>providerName = ''anon-user'', providerType = ''anon-user'', material = [],
      providerCapabilities = \<lparr>reusesExistingSession = True\<rparr>, authResponse = None\<rparr>"

section \<open>Properties\<close>

subsection \<open>Basic facts\<close>

lemma loggedOut_idem: "loggedOut (loggedOut a) = loggedOut a"
  by (simp add: loggedOut_def)

lemma clearAuth_loggedOut: "\<not> isLoggedIn st \<Longrightarrow> clearAuth env st = (Inr (), st)"
  by (simp add: clearAuth_def)

lemma clearAuth_explicit:
  "clearAuth env st =
     (if currentUser st = None then (Inr (), st)
      else if storageAccepts env (writeAttempts st)
      then (Inr (), st\<lparr>authInfo := loggedOut (authInfo st), currentUser := None,
                        storage := Some (loggedOut (authInfo st)),
                        writeAttempts := Suc (writeAttempts st),
                        authEvents := Suc (authEvents st)\<rparr>)
      else (Inl (StitchClientError CouldNotPersistAuthInfo),
            st\<lparr>authInfo := loggedOut (authInfo st), writeAttempts := Suc (writeAttempts st)\<rparr>))"
  by (simp add: clearAuth_def isLoggedIn_def writeToStorage_def onAuthEvent_def Let_def)

lemma sent_clearAuth: "sent (snd (clearAuth env st)) = sent st"
  by (simp add: clearAuth_explicit)

lemma prepareAuthRequest_loggedIn:
  "isLoggedIn st \<Longrightarrow> prepareAuthRequest st r = Inr (prepared st r)"
  by (simp add: prepareAuthRequest_def prepared_def)

text \<open>
  A request that carries the refresh token, or that may not refresh on failure, is
  dispatched once and never retried.
\<close>

lemma doAuthenticatedRequest_final:
  assumes "isLoggedIn st" and "useRefreshToken r \<or> \<not> shouldRefreshOnFailure r"
  shows "doAuthenticatedRequest env st r =
     (case transport env (length (sent st)) (prepared st r) of
        Inr response \<Rightarrow> (Inr response, st\<lparr>sent := sent st @ [prepared st r]\<rparr>)
      | Inl err \<Rightarrow>
          (if isInvalidSession err
           then (case clearAuth env (st\<lparr>sent := sent st @ [prepared st r]\<rparr>) of
                   (Inl e, st1) \<Rightarrow> (Inl e, st1)
                 | (Inr u, st1) \<Rightarrow> (Inl err, st1))
           else (Inl err, st\<lparr>sent := sent st @ [prepared st r]\<rparr>)))"
  using assms
  by (auto simp: doAuthenticatedRequest.simps handleAuthFailure.simps
      prepareAuthRequest_loggedIn doRequest_def split: sum.splits)

lemma refreshRequest_flags: "useRefreshToken (refreshRequest env st)"
  by (simp add: refreshRequest_def)

lemma logoutRequest_flags: "useRefreshToken (logoutRequest env st)"
  by (simp add: logoutRequest_def)

lemma refreshAccessToken_loggedOut:
  "\<not> isLoggedIn st \<Longrightarrow>
   refreshAccessToken env st = (Inl (StitchClientError MustAuthenticateFirst), st)"
  by (simp add: refreshAccessToken.simps doAuthenticatedRequest.simps prepareAuthRequest_def)

lemma refreshAccessToken_loggedIn:
  assumes "isLoggedIn st"
  shows "refreshAccessToken env st =
     (let r = prepared st (refreshRequest env st);
          st1 = st\<lparr>sent := sent st @ [r]\<rparr>
      in case transport env (length (sent st)) r of
           Inl err \<Rightarrow>
             (if isInvalidSession err
              then (case clearAuth env st1 of
                      (Inl e, st2) \<Rightarrow> (Inl e, st2)
                    | (Inr u, st2) \<Rightarrow> (Inl err, st2))
              else (Inl err, st1))
         | Inr response \<Rightarrow>
             (case parseApiAuthInfo env (body response) of
                None \<Rightarrow> (Inl (StitchRequestError (JSError ''decode'') DECODING_ERROR), st1)
              | Some partialInfo \<Rightarrow>
                  (if storageAccepts env (writeAttempts st)
                   then (Inr (),
                         st1\<lparr>authInfo := merge (authInfo st) (toAuthInfo partialInfo),
                             storage := Some (merge (authInfo st) (toAuthInfo partialInfo)),
                             writeAttempts := Suc (writeAttempts st)\<rparr>)
                   else (Inl (StitchClientError CouldNotPersistAuthInfo),
                         st1\<lparr>authInfo := merge (authInfo st) (toAuthInfo partialInfo),
                             writeAttempts := Suc (writeAttempts st)\<rparr>))))"
  using assms
  by (auto simp: refreshAccessToken.simps doAuthenticatedRequest_final refreshRequest_flags
      Let_def writeToStorage_def split: sum.splits option.splits prod.splits)

lemma sent_refreshAccessToken:
  assumes "isLoggedIn st"
  shows "sent (snd (refreshAccessToken env st)) = sent st @ [prepared st (refreshRequest env st)]"
  by (auto simp: refreshAccessToken_loggedIn [OF assms] Let_def clearAuth_explicit
      split: sum.splits option.splits prod.splits)

lemma issuedSince_iff:
  "issuedSince env st t \<longleftrightarrow>
     (\<exists>tok jwt. accessToken (authInfo st) = Some tok \<and> decodeJWT env tok = Some jwt \<and>
        t \<le> issuedAt jwt)"
  by (auto simp: issuedSince_def split: option.splits)

lemmas example_defs =
  exampleAuth_def exampleInfo_def exampleUser_def exampleEnv_def exampleRequest_def
  invalidSession_def transportError_def ok_def makeUser_def isLoggedIn_def

lemmas run_defs =
  clearAuth_def writeToStorage_def onAuthEvent_def prepareAuthRequest_def
  doRequest_def build_def getAuthorizationBearer_def AUTHORIZATION_def isInvalidSession_def
  refreshRequest_def parseApiAuthInfo_def issuedSince_def loggedOut_def merge_def orElse_def
  toAuthInfo_def doAuthenticatedRequest.simps handleAuthFailure.simps
  tryRefreshAccessToken.simps refreshAccessToken.simps logoutRequest_def doLogout_def
  logoutHandlers_def logoutInternal_def prepared_def Let_def

subsection \<open>The freshness check\<close>

text \<open>
  C3. In a logged-in state, \<open>tryRefreshAccessToken\<close> resolves at once, with the state as
  it was and no request sent, exactly when the access token decodes as a JWT issued at
  or after the start of the request. When the token is undefined, does not decode, or
  was issued before the request started, it is \<open>refreshAccessToken\<close>, run once: one
  request, the refresh request, is sent.
\<close>

theorem tryRefreshAccessToken_freshness:
  assumes "isLoggedIn st"
  shows "((\<exists>tok jwt. accessToken (authInfo st) = Some tok \<and> decodeJWT env tok = Some jwt \<and>
             reqStartedAt \<le> issuedAt jwt) \<longrightarrow>
            tryRefreshAccessToken env st reqStartedAt = (Inr (), st)) \<and>
         (\<not> (\<exists>tok jwt. accessToken (authInfo st) = Some tok \<and> decodeJWT env tok = Some jwt \<and>
             reqStartedAt \<le> issuedAt jwt) \<longrightarrow>
            tryRefreshAccessToken env st reqStartedAt = refreshAccessToken env st \<and>
            sent (snd (tryRefreshAccessToken env st reqStartedAt)) =
              sent st @ [prepared st (refreshRequest env st)]) \<and>
         (sent (snd (tryRefreshAccessToken env st reqStartedAt)) = sent st \<longleftrightarrow>
            (\<exists>tok jwt. accessToken (authInfo st) = Some tok \<and> decodeJWT env tok = Some jwt \<and>
               reqStartedAt \<le> issuedAt jwt))"
proof (cases "issuedSince env st reqStartedAt")
  case True
  then show ?thesis
    unfolding issuedSince_iff [symmetric]
    using assms by (simp add: tryRefreshAccessToken.simps)
next
  case False
  then show ?thesis
    unfolding issuedSince_iff [symmetric]
    using assms sent_refreshAccessToken [OF assms, of env]
    by (simp add: tryRefreshAccessToken.simps)
qed

text \<open>
  The check at work: with the token \<open>a2\<close>, issued at 1000, a request started at 500
  needs no refresh; with the token \<open>a1\<close>, which does not decode, one refresh request
  is sent.
\<close>

theorem tryRefreshAccessToken_freshness_witness:
  "isLoggedIn freshAuth \<and>
   tryRefreshAccessToken (exampleEnv [] []) freshAuth 500 = (Inr (), freshAuth) \<and>
   isLoggedIn exampleAuth \<and>
   length (sent (snd (tryRefreshAccessToken (exampleEnv [ok ''session2''] []) exampleAuth 500))) = 1"
proof -
  have l2: "isLoggedIn freshAuth" and l1: "isLoggedIn exampleAuth"
    by (simp_all add: freshAuth_def example_defs)
  have fresh: "\<exists>tok jwt. accessToken (authInfo freshAuth) = Some tok \<and>
      decodeJWT (exampleEnv [] []) tok = Some jwt \<and> 500 \<le> issuedAt jwt"
    by (simp add: freshAuth_def example_defs)
  have stale: "\<not> (\<exists>tok jwt. accessToken (authInfo exampleAuth) = Some tok \<and>
      decodeJWT (exampleEnv [ok ''session2''] []) tok = Some jwt \<and> 500 \<le> issuedAt jwt)"
    by (simp add: example_defs)
  have "tryRefreshAccessToken (exampleEnv [] []) freshAuth 500 = (Inr (), freshAuth)"
    using tryRefreshAccessToken_freshness [OF l2, of "exampleEnv [] []" 500] fresh by blast
  moreover have "sent (snd (tryRefreshAccessToken (exampleEnv [ok ''session2''] []) exampleAuth 500))
      = sent exampleAuth @ [prepared exampleAuth (refreshRequest (exampleEnv [ok ''session2''] []) exampleAuth)]"
    using tryRefreshAccessToken_freshness [OF l1, of "exampleEnv [ok ''session2''] []" 500] stale
    by blast
  then have "length (sent (snd (tryRefreshAccessToken (exampleEnv [ok ''session2''] []) exampleAuth 500))) = 1"
    by (simp add: exampleAuth_def)
  ultimately show ?thesis using l1 l2 by simp
qed

subsection \<open>The device id\<close>

text \<open>
  C10. \<open>hasDeviceId\<close> holds exactly when the stored device id is defined, is not the
  empty string and is not the string of twenty-four zeros; the \<open>deviceId\<close> accessor
  returns the stored device id when \<open>hasDeviceId\<close> holds and \<open>undefined\<close> otherwise, so
  a stored device id of all zeros is reported as none.
\<close>

theorem hasDeviceId_meaningful:
  "(hasDeviceId st \<longleftrightarrow>
      (\<exists>d. deviceId (authInfo st) = Some d \<and> d \<noteq> '''' \<and> d \<noteq> ''000000000000000000000000'')) \<and>
   getDeviceId st = (if hasDeviceId st then deviceId (authInfo st) else None) \<and>
   (deviceId (authInfo st) = Some ''000000000000000000000000'' \<longrightarrow> getDeviceId st = None)"
  by (auto simp: hasDeviceId_def getDeviceId_def)

theorem hasDeviceId_meaningful_witness:
  "deviceId (authInfo (exampleAuth\<lparr>authInfo := exampleInfo\<lparr>deviceId := Some ''000000000000000000000000''\<rparr>\<rparr>))
     = Some ''000000000000000000000000'' \<and>
   getDeviceId (exampleAuth\<lparr>authInfo := exampleInfo\<lparr>deviceId := Some ''000000000000000000000000''\<rparr>\<rparr>)
     = None \<and>
   hasDeviceId exampleAuth \<and> getDeviceId exampleAuth = Some ''d1''"
  using hasDeviceId_meaningful
      [of "exampleAuth\<lparr>authInfo := exampleInfo\<lparr>deviceId := Some ''000000000000000000000000''\<rparr>\<rparr>"]
    hasDeviceId_meaningful [of exampleAuth]
  by (simp add: example_defs)

subsection \<open>Logout\<close>

lemma logoutInternal_loggedOut: "\<not> isLoggedIn st \<Longrightarrow> logoutInternal env st = (Inr (), st)"
  by (simp add: logoutInternal_def)

text \<open>
  What \<open>logoutInternal\<close> does in a logged-in state, case by case: one request is sent;
  the first write decides unless it is refused, and then a second write is tried if
  the request was answered or rejected as an invalid session.
\<close>

lemma logoutInternal_explicit:
  assumes "isLoggedIn st"
  shows "logoutInternal env st =
     (let st1 = st\<lparr>sent := sent st @ [prepared st (logoutRequest env st)]\<rparr>;
          w = writeAttempts st;
          a = loggedOut (authInfo st)
      in if storageAccepts env w
         then (Inr (), st1\<lparr>authInfo := a, currentUser := None, storage := Some a,
                          writeAttempts := Suc w, authEvents := Suc (authEvents st)\<rparr>)
         else if rejectsOtherwise
                   (transport env (length (sent st)) (prepared st (logoutRequest env st)))
         then (Inl (StitchClientError CouldNotPersistAuthInfo),
               st1\<lparr>authInfo := a, writeAttempts := Suc w\<rparr>)
         else if storageAccepts env (Suc w)
         then (Inr (), st1\<lparr>authInfo := a, currentUser := None, storage := Some a,
                          writeAttempts := Suc (Suc w), authEvents := Suc (authEvents st)\<rparr>)
         else (Inl (StitchClientError CouldNotPersistAuthInfo),
               st1\<lparr>authInfo := a, writeAttempts := Suc (Suc w)\<rparr>))"
proof -
  from assms obtain cur where cur: "currentUser st = Some cur"
    by (auto simp: isLoggedIn_def)
  have d: "doLogout env st =
     (case transport env (length (sent st)) (prepared st (logoutRequest env st)) of
        Inl err \<Rightarrow>
          (if isInvalidSession err
           then (case clearAuth env (st\<lparr>sent := sent st @ [prepared st (logoutRequest env st)]\<rparr>) of
                   (Inl e, st2) \<Rightarrow> (Inl e, st2)
                 | (Inr u, st2) \<Rightarrow> (Inl err, st2))
           else (Inl err, st\<lparr>sent := sent st @ [prepared st (logoutRequest env st)]\<rparr>))
      | Inr response \<Rightarrow> (Inr (), st\<lparr>sent := sent st @ [prepared st (logoutRequest env st)]\<rparr>))"
    using assms
    by (auto simp: doLogout_def doAuthenticatedRequest_final logoutRequest_flags
        split: sum.splits prod.splits)
  show ?thesis
  proof (cases "transport env (length (sent st)) (prepared st (logoutRequest env st))")
    case (Inl err)
    show ?thesis
    proof (cases "isInvalidSession err")
      case True
      with Inl assms cur show ?thesis
        by (simp add: logoutInternal_def logoutHandlers_def d Let_def clearAuth_explicit
            loggedOut_idem rejectsOtherwise_def)
    next
      case False
      with Inl assms cur show ?thesis
        by (simp add: logoutInternal_def logoutHandlers_def d Let_def clearAuth_explicit
            loggedOut_idem rejectsOtherwise_def)
    qed
  next
    case (Inr response)
    with assms cur show ?thesis
      by (simp add: logoutInternal_def logoutHandlers_def d Let_def clearAuth_explicit
          loggedOut_idem rejectsOtherwise_def)
  qed
qed

lemma logoutInternal_resolved:
  "fst (logoutInternal env st) = Inr () \<Longrightarrow> \<not> isLoggedIn (snd (logoutInternal env st))"
proof (cases "isLoggedIn st")
  case True
  assume "fst (logoutInternal env st) = Inr ()"
  then show ?thesis
    by (simp add: logoutInternal_explicit [OF True] Let_def isLoggedIn_def split: if_splits)
next
  case False
  then show ?thesis by (simp add: logoutInternal_loggedOut)
qed

text \<open>
  C6, as the code has it. From a logged-in state, whatever the transport answers to
  the session-delete request, \<open>logoutInternal\<close> ends either with success or with the
  error \<open>CouldNotPersistAuthInfo\<close>, never with the transport's error. Whenever the
  storage accepts the write of the logged-out auth info, it succeeds, no user is
  logged in, the auth info is the logged-out form of the former one, and the storage
  holds it, whether the session-delete request succeeded or failed. Whenever it
  succeeds, the state is cleared and persisted in that way, and it fails only when
  the storage refused the write. One request is sent, the session-delete.
\<close>

theorem logoutInternal_clears:
  assumes "isLoggedIn st"
  shows "(fst (logoutInternal env st) = Inr () \<or>
          fst (logoutInternal env st) = Inl (StitchClientError CouldNotPersistAuthInfo)) \<and>
         (storageAccepts env (writeAttempts st) \<longrightarrow>
            fst (logoutInternal env st) = Inr () \<and>
            \<not> isLoggedIn (snd (logoutInternal env st)) \<and>
            authInfo (snd (logoutInternal env st)) = loggedOut (authInfo st) \<and>
            storage (snd (logoutInternal env st)) = Some (loggedOut (authInfo st))) \<and>
         (fst (logoutInternal env st) = Inr () \<longrightarrow>
            \<not> isLoggedIn (snd (logoutInternal env st)) \<and>
            authInfo (snd (logoutInternal env st)) = loggedOut (authInfo st) \<and>
            storage (snd (logoutInternal env st)) = Some (loggedOut (authInfo st))) \<and>
         (fst (logoutInternal env st) \<noteq> Inr () \<longrightarrow> \<not> storageAccepts env (writeAttempts st)) \<and>
         sent (snd (logoutInternal env st)) = sent st @ [prepared st (logoutRequest env st)]"
  by (simp add: logoutInternal_explicit [OF assms] Let_def isLoggedIn_def)

text \<open>
  Scenario C of the specification: the session-delete request fails in the transport
  and the client is logged out all the same.
\<close>

theorem logoutInternal_clears_witness:
  "isLoggedIn exampleAuth \<and>
   transport (exampleEnv [transportError] []) 0
     (prepared exampleAuth (logoutRequest (exampleEnv [transportError] []) exampleAuth)) = transportError \<and>
   storageAccepts (exampleEnv [transportError] []) (writeAttempts exampleAuth) \<and>
   fst (logoutInternal (exampleEnv [transportError] []) exampleAuth) = Inr () \<and>
   \<not> isLoggedIn (snd (logoutInternal (exampleEnv [transportError] []) exampleAuth)) \<and>
   storage (snd (logoutInternal (exampleEnv [transportError] []) exampleAuth))
     = Some (loggedOut exampleInfo)"
proof -
  have l: "isLoggedIn exampleAuth"
    and t: "transport (exampleEnv [transportError] []) 0
      (prepared exampleAuth (logoutRequest (exampleEnv [transportError] []) exampleAuth)) = transportError"
    and w: "storageAccepts (exampleEnv [transportError] []) (writeAttempts exampleAuth)"
    and a: "authInfo exampleAuth = exampleInfo"
    by (simp_all add: example_defs)
  from logoutInternal_clears [OF l, of "exampleEnv [transportError] []"] w
  have "fst (logoutInternal (exampleEnv [transportError] []) exampleAuth) = Inr () \<and>
        \<not> isLoggedIn (snd (logoutInternal (exampleEnv [transportError] []) exampleAuth)) \<and>
        storage (snd (logoutInternal (exampleEnv [transportError] []) exampleAuth))
          = Some (loggedOut (authInfo exampleAuth))"
    by blast
  with l t w a show ?thesis by simp
qed

text \<open>
  Two logouts of the same client with the same storage, which refuses the first write
  and accepts the second. When the session-delete request is answered, the logout
  succeeds and the client is logged out. When the request fails in the transport, the
  logout ends in \<open>CouldNotPersistAuthInfo\<close>, the user is still logged in and the
  storage holds the old auth info: here the outcome of the request decides whether
  the logout clears the state.
\<close>

theorem logoutInternal_network_decides_counterexample:
  "fst (logoutInternal (exampleEnv [ok ''done''] [False, True]) exampleAuth) = Inr () \<and>
   \<not> isLoggedIn (snd (logoutInternal (exampleEnv [ok ''done''] [False, True]) exampleAuth)) \<and>
   storage (snd (logoutInternal (exampleEnv [ok ''done''] [False, True]) exampleAuth))
     = Some (loggedOut exampleInfo) \<and>
   fst (logoutInternal (exampleEnv [transportError] [False, True]) exampleAuth)
     = Inl (StitchClientError CouldNotPersistAuthInfo) \<and>
   isLoggedIn (snd (logoutInternal (exampleEnv [transportError] [False, True]) exampleAuth)) \<and>
   storage (snd (logoutInternal (exampleEnv [transportError] [False, True]) exampleAuth))
     = Some exampleInfo"
  by (simp add: run_defs example_defs)

text \<open>
  C8, as the code has it. In a state where no user is logged in, \<open>logoutInternal\<close>
  succeeds and returns the state as it is: nothing is sent and nothing is written.
  Hence after a logout that succeeded, a second logout changes nothing.
\<close>

theorem logoutInternal_idempotent:
  "(\<not> isLoggedIn st \<longrightarrow> logoutInternal env st = (Inr (), st)) \<and>
   (fst (logoutInternal env st) = Inr () \<longrightarrow>
      logoutInternal env' (snd (logoutInternal env st)) = (Inr (), snd (logoutInternal env st)))"
  using logoutInternal_resolved [of env st]
  by (simp add: logoutInternal_loggedOut)

theorem logoutInternal_idempotent_witness:
  "fst (logoutInternal (exampleEnv [ok ''''] []) exampleAuth) = Inr () \<and>
   logoutInternal (exampleEnv [ok ''''] []) (snd (logoutInternal (exampleEnv [ok ''''] []) exampleAuth))
     = (Inr (), snd (logoutInternal (exampleEnv [ok ''''] []) exampleAuth))"
proof -
  have "fst (logoutInternal (exampleEnv [ok ''''] []) exampleAuth) = Inr ()"
    by (simp add: run_defs example_defs)
  with logoutInternal_idempotent
    [of exampleAuth "exampleEnv [ok ''''] []" "exampleEnv [ok ''''] []"]
  show ?thesis by blast
qed

text \<open>
  A logout that could not persist the logged-out state: the storage refuses both
  writes of the first call, which fails and leaves the user in place, so that the
  second call is no no-op but sends a second session-delete request.
\<close>

theorem logoutInternal_twice_counterexample:
  "fst (logoutInternal (exampleEnv [ok '''', ok ''''] [False, False]) exampleAuth)
     = Inl (StitchClientError CouldNotPersistAuthInfo) \<and>
   length (sent (snd (logoutInternal (exampleEnv [ok '''', ok ''''] [False, False]) exampleAuth))) = 1 \<and>
   length (sent (snd (logoutInternal (exampleEnv [ok '''', ok ''''] [False, False])
     (snd (logoutInternal (exampleEnv [ok '''', ok ''''] [False, False]) exampleAuth))))) = 2 \<and>
   snd (logoutInternal (exampleEnv [ok '''', ok ''''] [False, False])
     (snd (logoutInternal (exampleEnv [ok '''', ok ''''] [False, False]) exampleAuth)))
     \<noteq> snd (logoutInternal (exampleEnv [ok '''', ok ''''] [False, False]) exampleAuth)"
proof -
  have one: "length (sent (snd (logoutInternal (exampleEnv [ok '''', ok ''''] [False, False]) exampleAuth))) = 1"
    by (simp add: run_defs example_defs)
  have two: "length (sent (snd (logoutInternal (exampleEnv [ok '''', ok ''''] [False, False])
     (snd (logoutInternal (exampleEnv [ok '''', ok ''''] [False, False]) exampleAuth))))) = 2"
    by (simp add: run_defs example_defs)
  have err: "fst (logoutInternal (exampleEnv [ok '''', ok ''''] [False, False]) exampleAuth)
     = Inl (StitchClientError CouldNotPersistAuthInfo)"
    by (simp add: run_defs example_defs)
  from one two have "snd (logoutInternal (exampleEnv [ok '''', ok ''''] [False, False])
     (snd (logoutInternal (exampleEnv [ok '''', ok ''''] [False, False]) exampleAuth)))
     \<noteq> snd (logoutInternal (exampleEnv [ok '''', ok ''''] [False, False]) exampleAuth)"
    by auto
  with one two err show ?thesis by blast
qed

subsection \<open>Refresh\<close>

text \<open>
  C5, as the code has it. A refresh that succeeds has merged the partial auth info of
  the response into the auth info and has written the result to the storage. A refresh
  that fails with an error that is neither an invalid session nor a failure to persist
  leaves the auth info, the user and the storage as they were. A refresh that the
  server rejects as an invalid session runs \<open>clearAuth\<close> (the request carries the
  refresh token, so nothing is left to refresh with): when the storage accepts the
  write, the result is the invalid-session error and the authentication state is
  cleared and persisted; when the storage refuses it, the result is
  \<open>CouldNotPersistAuthInfo\<close>. A refresh whose merged auth info the storage refuses
  fails with \<open>CouldNotPersistAuthInfo\<close> and keeps the merged auth info in memory.
\<close>

theorem refreshAccessToken_outcomes:
  "(fst (refreshAccessToken env st) = Inr () \<longrightarrow>
      (\<exists>response partialInfo.
         transport env (length (sent st)) (prepared st (refreshRequest env st)) = Inr response \<and>
         parseApiAuthInfo env (body response) = Some partialInfo \<and>
         authInfo (snd (refreshAccessToken env st)) = merge (authInfo st) (toAuthInfo partialInfo) \<and>
         storage (snd (refreshAccessToken env st)) = Some (merge (authInfo st) (toAuthInfo partialInfo)) \<and>
         currentUser (snd (refreshAccessToken env st)) = currentUser st)) \<and>
   (\<forall>e. fst (refreshAccessToken env st) = Inl e \<and> \<not> isInvalidSession e \<and>
        e \<noteq> StitchClientError CouldNotPersistAuthInfo \<longrightarrow>
        authInfo (snd (refreshAccessToken env st)) = authInfo st \<and>
        currentUser (snd (refreshAccessToken env st)) = currentUser st \<and>
        storage (snd (refreshAccessToken env st)) = storage st) \<and>
   (\<forall>err. isLoggedIn st \<and>
        transport env (length (sent st)) (prepared st (refreshRequest env st)) = Inl err \<and>
        isInvalidSession err \<and> storageAccepts env (writeAttempts st) \<longrightarrow>
        fst (refreshAccessToken env st) = Inl err \<and>
        authInfo (snd (refreshAccessToken env st)) = loggedOut (authInfo st) \<and>
        currentUser (snd (refreshAccessToken env st)) = None \<and>
        storage (snd (refreshAccessToken env st)) = Some (loggedOut (authInfo st))) \<and>
   (\<forall>response partialInfo. isLoggedIn st \<and>
        transport env (length (sent st)) (prepared st (refreshRequest env st)) = Inr response \<and>
        parseApiAuthInfo env (body response) = Some partialInfo \<and>
        \<not> storageAccepts env (writeAttempts st) \<longrightarrow>
        fst (refreshAccessToken env st) = Inl (StitchClientError CouldNotPersistAuthInfo) \<and>
        authInfo (snd (refreshAccessToken env st)) = merge (authInfo st) (toAuthInfo partialInfo) \<and>
        storage (snd (refreshAccessToken env st)) = storage st) \<and>
   (\<forall>err. isLoggedIn st \<and>
        transport env (length (sent st)) (prepared st (refreshRequest env st)) = Inl err \<and>
        isInvalidSession err \<and> \<not> storageAccepts env (writeAttempts st) \<longrightarrow>
        fst (refreshAccessToken env st) = Inl (StitchClientError CouldNotPersistAuthInfo))"
proof (cases "isLoggedIn st")
  case False
  then show ?thesis
    by (simp add: refreshAccessToken_loggedOut isInvalidSession_def)
next
  case True
  then obtain cur where cur: "currentUser st = Some cur"
    by (auto simp: isLoggedIn_def)
  show ?thesis
  proof (cases "transport env (length (sent st)) (prepared st (refreshRequest env st))")
    case (Inl err)
    then show ?thesis using cur
      by (simp add: refreshAccessToken_loggedIn [OF True] Let_def clearAuth_explicit
          isInvalidSession_def)
  next
    case (Inr response)
    then show ?thesis using cur
      by (cases "parseApiAuthInfo env (body response)")
         (simp_all add: refreshAccessToken_loggedIn [OF True] Let_def isInvalidSession_def)
  qed
qed

theorem refreshAccessToken_outcomes_witness:
  "fst (refreshAccessToken (exampleEnv [ok ''session2''] []) exampleAuth) = Inr () \<and>
   accessToken (authInfo (snd (refreshAccessToken (exampleEnv [ok ''session2''] []) exampleAuth)))
     = Some ''a2'' \<and>
   fst (refreshAccessToken (exampleEnv [transportError] []) exampleAuth) = transportError \<and>
   authInfo (snd (refreshAccessToken (exampleEnv [transportError] []) exampleAuth)) = exampleInfo"
proof -
  have s: "fst (refreshAccessToken (exampleEnv [ok ''session2''] []) exampleAuth) = Inr ()"
    by (simp add: run_defs example_defs)
  from refreshAccessToken_outcomes [of "exampleEnv [ok ''session2''] []" exampleAuth] s
  obtain response partialInfo where
    "transport (exampleEnv [ok ''session2''] []) (length (sent exampleAuth))
       (prepared exampleAuth (refreshRequest (exampleEnv [ok ''session2''] []) exampleAuth)) = Inr response"
    "parseApiAuthInfo (exampleEnv [ok ''session2''] []) (body response) = Some partialInfo"
    "authInfo (snd (refreshAccessToken (exampleEnv [ok ''session2''] []) exampleAuth))
       = merge (authInfo exampleAuth) (toAuthInfo partialInfo)"
    by blast
  then have m: "accessToken (authInfo (snd (refreshAccessToken (exampleEnv [ok ''session2''] []) exampleAuth)))
      = Some ''a2''"
    by (auto simp: example_defs parseApiAuthInfo_def merge_def orElse_def toAuthInfo_def)
  have f: "fst (refreshAccessToken (exampleEnv [transportError] []) exampleAuth) = transportError"
    by (simp add: run_defs example_defs)
  from refreshAccessToken_outcomes [of "exampleEnv [transportError] []" exampleAuth] f
  have "authInfo (snd (refreshAccessToken (exampleEnv [transportError] []) exampleAuth))
      = authInfo exampleAuth"
    by (simp add: transportError_def isInvalidSession_def)
  then have "authInfo (snd (refreshAccessToken (exampleEnv [transportError] []) exampleAuth))
      = exampleInfo"
    by (simp add: exampleAuth_def)
  with s m f show ?thesis by blast
qed

text \<open>
  Two refreshes that fail and do not leave the auth info as it was: one rejected as an
  invalid session, which logs the user out, and one whose merged auth info the storage
  refuses, which keeps the new access token in memory.
\<close>

theorem refreshAccessToken_untouched_counterexample:
  "fst (refreshAccessToken (exampleEnv [invalidSession] []) exampleAuth)
     = Inl (StitchServiceError ''invalid session'' InvalidSession) \<and>
   authInfo (snd (refreshAccessToken (exampleEnv [invalidSession] []) exampleAuth)) \<noteq> authInfo exampleAuth \<and>
   currentUser (snd (refreshAccessToken (exampleEnv [invalidSession] []) exampleAuth)) = None \<and>
   fst (refreshAccessToken (exampleEnv [ok ''session2''] [False]) exampleAuth)
     = Inl (StitchClientError CouldNotPersistAuthInfo) \<and>
   accessToken (authInfo (snd (refreshAccessToken (exampleEnv [ok ''session2''] [False]) exampleAuth)))
     = Some ''a2'' \<and>
   accessToken (authInfo exampleAuth) = Some ''a1''"
  by (simp add: run_defs example_defs)

subsection \<open>Authenticated requests: refresh and retry\<close>

lemma doAuthenticatedRequest_retry:
  assumes "isLoggedIn st" and "\<not> useRefreshToken req" and "shouldRefreshOnFailure req"
    and "transport env (length (sent st)) (prepared st req) = Inl err"
    and "isInvalidSession err"
  shows "doAuthenticatedRequest env st req =
     (case tryRefreshAccessToken env (st\<lparr>sent := sent st @ [prepared st req]\<rparr>) (startedAt req) of
        (Inl e, st2) \<Rightarrow> (Inl e, st2)
      | (Inr u, st2) \<Rightarrow> doAuthenticatedRequest env st2 (req\<lparr>shouldRefreshOnFailure := False\<rparr>))"
  using assms
  by (simp add: doAuthenticatedRequest.simps [of env st req]
      handleAuthFailure.simps [of env _ err req] prepareAuthRequest_loggedIn doRequest_def)

lemma tryRefreshAccessToken_resolved:
  assumes "isLoggedIn s" and "tryRefreshAccessToken env s t = (Inr u, s2)"
  shows "currentUser s2 = currentUser s"
    and "sent s2 = sent s \<or> sent s2 = sent s @ [prepared s (refreshRequest env s)]"
proof -
  show "currentUser s2 = currentUser s"
    using assms
    by (auto simp: tryRefreshAccessToken.simps refreshAccessToken_loggedIn Let_def
        clearAuth_explicit split: if_splits sum.splits option.splits)
  show "sent s2 = sent s \<or> sent s2 = sent s @ [prepared s (refreshRequest env s)]"
    using assms sent_refreshAccessToken [OF assms(1), of env]
    by (auto simp: tryRefreshAccessToken.simps split: if_splits)
qed

lemma tryRefreshAccessToken_rejected:
  assumes "isLoggedIn s" and "tryRefreshAccessToken env s t = (Inl e, s2)"
  shows "sent s2 = sent s @ [prepared s (refreshRequest env s)]"
  using assms sent_refreshAccessToken [OF assms(1), of env]
  by (auto simp: tryRefreshAccessToken.simps split: if_splits)

lemma doAuthenticatedRequest_retried:
  assumes "isLoggedIn s"
  shows "sent (snd (doAuthenticatedRequest env s (req\<lparr>shouldRefreshOnFailure := False\<rparr>)))
           = sent s @ [prepared s (req\<lparr>shouldRefreshOnFailure := False\<rparr>)]"
    and "transport env (length (sent s)) (prepared s (req\<lparr>shouldRefreshOnFailure := False\<rparr>)) = Inr response
         \<Longrightarrow> fst (doAuthenticatedRequest env s (req\<lparr>shouldRefreshOnFailure := False\<rparr>)) = Inr response"
    and "transport env (length (sent s)) (prepared s (req\<lparr>shouldRefreshOnFailure := False\<rparr>)) = Inl err2
         \<Longrightarrow> \<not> isInvalidSession err2
         \<Longrightarrow> doAuthenticatedRequest env s (req\<lparr>shouldRefreshOnFailure := False\<rparr>)
             = (Inl err2, s\<lparr>sent := sent s @ [prepared s (req\<lparr>shouldRefreshOnFailure := False\<rparr>)]\<rparr>)"
    and "transport env (length (sent s)) (prepared s (req\<lparr>shouldRefreshOnFailure := False\<rparr>)) = Inl err2
         \<Longrightarrow> isInvalidSession err2 \<Longrightarrow> storageAccepts env (writeAttempts s)
         \<Longrightarrow> fst (doAuthenticatedRequest env s (req\<lparr>shouldRefreshOnFailure := False\<rparr>)) = Inl err2 \<and>
             \<not> isLoggedIn (snd (doAuthenticatedRequest env s (req\<lparr>shouldRefreshOnFailure := False\<rparr>))) \<and>
             authInfo (snd (doAuthenticatedRequest env s (req\<lparr>shouldRefreshOnFailure := False\<rparr>)))
               = loggedOut (authInfo s) \<and>
             storage (snd (doAuthenticatedRequest env s (req\<lparr>shouldRefreshOnFailure := False\<rparr>)))
               = Some (loggedOut (authInfo s))"
proof -
  from assms obtain cur where cur: "currentUser s = Some cur"
    by (auto simp: isLoggedIn_def)
  have f: "useRefreshToken (req\<lparr>shouldRefreshOnFailure := False\<rparr>) \<or>
           \<not> shouldRefreshOnFailure (req\<lparr>shouldRefreshOnFailure := False\<rparr>)"
    by simp
  note e = doAuthenticatedRequest_final [OF assms f, of env]
  show "sent (snd (doAuthenticatedRequest env s (req\<lparr>shouldRefreshOnFailure := False\<rparr>)))
           = sent s @ [prepared s (req\<lparr>shouldRefreshOnFailure := False\<rparr>)]"
    unfolding e by (simp add: clearAuth_explicit split: sum.splits)
  show "transport env (length (sent s)) (prepared s (req\<lparr>shouldRefreshOnFailure := False\<rparr>)) = Inr response
         \<Longrightarrow> fst (doAuthenticatedRequest env s (req\<lparr>shouldRefreshOnFailure := False\<rparr>)) = Inr response"
    unfolding e by simp
  show "transport env (length (sent s)) (prepared s (req\<lparr>shouldRefreshOnFailure := False\<rparr>)) = Inl err2
         \<Longrightarrow> \<not> isInvalidSession err2
         \<Longrightarrow> doAuthenticatedRequest env s (req\<lparr>shouldRefreshOnFailure := False\<rparr>)
             = (Inl err2, s\<lparr>sent := sent s @ [prepared s (req\<lparr>shouldRefreshOnFailure := False\<rparr>)]\<rparr>)"
    unfolding e by simp
  show "transport env (length (sent s)) (prepared s (req\<lparr>shouldRefreshOnFailure := False\<rparr>)) = Inl err2
         \<Longrightarrow> isInvalidSession err2 \<Longrightarrow> storageAccepts env (writeAttempts s)
         \<Longrightarrow> fst (doAuthenticatedRequest env s (req\<lparr>shouldRefreshOnFailure := False\<rparr>)) = Inl err2 \<and>
             \<not> isLoggedIn (snd (doAuthenticatedRequest env s (req\<lparr>shouldRefreshOnFailure := False\<rparr>))) \<and>
             authInfo (snd (doAuthenticatedRequest env s (req\<lparr>shouldRefreshOnFailure := False\<rparr>)))
               = loggedOut (authInfo s) \<and>
             storage (snd (doAuthenticatedRequest env s (req\<lparr>shouldRefreshOnFailure := False\<rparr>)))
               = Some (loggedOut (authInfo s))"
    unfolding e using cur by (simp add: clearAuth_explicit isLoggedIn_def)
qed

text \<open>
  C1, as the code has it. Let an authenticated request that uses the access token and
  may refresh on failure be rejected as an invalid session. Then the freshness check
  runs once. If the check fails (its refresh is rejected, cannot be decoded or cannot
  be persisted), its error is the result and the request is not sent again. If the
  check resolves, it has sent no request or the one refresh request, and the original
  request is sent once more with \<open>shouldRefreshOnFailure\<close> false; the response or
  the error of that second attempt is the result, and when the error is again an
  invalid session and the storage accepts the write, the result is that error and
  the client is logged out, with the logged-out auth info persisted. In all, at most
  three requests are sent: the original, at most one refresh, at most one retry.
\<close>

theorem doAuthenticatedRequest_single_retry:
  assumes "isLoggedIn st" and "\<not> useRefreshToken req" and "shouldRefreshOnFailure req"
    and "transport env (length (sent st)) (prepared st req) = Inl err"
    and "isInvalidSession err"
  shows
   "doAuthenticatedRequest env st req =
      (case tryRefreshAccessToken env (st\<lparr>sent := sent st @ [prepared st req]\<rparr>) (startedAt req) of
         (Inl e, st2) \<Rightarrow> (Inl e, st2)
       | (Inr u, st2) \<Rightarrow> doAuthenticatedRequest env st2 (req\<lparr>shouldRefreshOnFailure := False\<rparr>)) \<and>
    (\<forall>e st2.
       tryRefreshAccessToken env (st\<lparr>sent := sent st @ [prepared st req]\<rparr>) (startedAt req) = (Inl e, st2) \<longrightarrow>
         doAuthenticatedRequest env st req = (Inl e, st2) \<and>
         sent st2 = sent st @ [prepared st req,
           prepared st (refreshRequest env (st\<lparr>sent := sent st @ [prepared st req]\<rparr>))]) \<and>
    (\<forall>u st2.
       tryRefreshAccessToken env (st\<lparr>sent := sent st @ [prepared st req]\<rparr>) (startedAt req) = (Inr u, st2) \<longrightarrow>
         (sent st2 = sent st @ [prepared st req] \<or>
          sent st2 = sent st @ [prepared st req,
            prepared st (refreshRequest env (st\<lparr>sent := sent st @ [prepared st req]\<rparr>))]) \<and>
         sent (snd (doAuthenticatedRequest env st req))
           = sent st2 @ [prepared st2 (req\<lparr>shouldRefreshOnFailure := False\<rparr>)] \<and>
         (\<forall>response.
            transport env (length (sent st2)) (prepared st2 (req\<lparr>shouldRefreshOnFailure := False\<rparr>))
              = Inr response \<longrightarrow>
            fst (doAuthenticatedRequest env st req) = Inr response) \<and>
         (\<forall>err2.
            transport env (length (sent st2)) (prepared st2 (req\<lparr>shouldRefreshOnFailure := False\<rparr>))
              = Inl err2 \<and> \<not> isInvalidSession err2 \<longrightarrow>
            doAuthenticatedRequest env st req
              = (Inl err2, st2\<lparr>sent := sent st2 @ [prepared st2 (req\<lparr>shouldRefreshOnFailure := False\<rparr>)]\<rparr>)) \<and>
         (\<forall>err2.
            transport env (length (sent st2)) (prepared st2 (req\<lparr>shouldRefreshOnFailure := False\<rparr>))
              = Inl err2 \<and> isInvalidSession err2 \<and> storageAccepts env (writeAttempts st2) \<longrightarrow>
            fst (doAuthenticatedRequest env st req) = Inl err2 \<and>
            \<not> isLoggedIn (snd (doAuthenticatedRequest env st req)) \<and>
            authInfo (snd (doAuthenticatedRequest env st req)) = loggedOut (authInfo st2) \<and>
            storage (snd (doAuthenticatedRequest env st req)) = Some (loggedOut (authInfo st2)))) \<and>
    length (sent (snd (doAuthenticatedRequest env st req))) \<le> length (sent st) + 3"
proof -
  let ?st1 = "st\<lparr>sent := sent st @ [prepared st req]\<rparr>"
  let ?req' = "req\<lparr>shouldRefreshOnFailure := False\<rparr>"
  have li1: "isLoggedIn ?st1" using assms(1) by (simp add: isLoggedIn_def)
  have p1: "prepared ?st1 (refreshRequest env ?st1) = prepared st (refreshRequest env ?st1)"
    by (simp add: prepared_def)
  note A = doAuthenticatedRequest_retry [OF assms]
  obtain r1 s2 where t: "tryRefreshAccessToken env ?st1 (startedAt req) = (r1, s2)"
    by (cases "tryRefreshAccessToken env ?st1 (startedAt req)")
  show ?thesis
  proof (cases r1)
    case (Inl e)
    have "sent s2 = sent st @ [prepared st req, prepared st (refreshRequest env ?st1)]"
      using tryRefreshAccessToken_rejected [OF li1, of env "startedAt req" e s2] t Inl p1
      by simp
    then show ?thesis using A t Inl by simp
  next
    case (Inr u)
    have cu: "currentUser s2 = currentUser ?st1"
      and se: "sent s2 = sent ?st1 \<or> sent s2 = sent ?st1 @ [prepared ?st1 (refreshRequest env ?st1)]"
      using tryRefreshAccessToken_resolved [OF li1, of env "startedAt req" u s2] t Inr by simp_all
    have li2: "isLoggedIn s2" using cu li1 by (simp add: isLoggedIn_def)
    have eq: "doAuthenticatedRequest env st req = doAuthenticatedRequest env s2 ?req'"
      using A t Inr by simp
    have len: "length (sent s2) \<le> length (sent st) + 2" using se by auto
    show ?thesis
      unfolding eq
      using t Inr se p1 len doAuthenticatedRequest_retried [OF li2, of env req]
      by (auto simp: A)
  qed
qed

text \<open>
  Scenario B of the specification: the call is rejected as an invalid session, the
  refresh returns the access token \<open>a2\<close>, and the retried call succeeds.
\<close>

theorem doAuthenticatedRequest_single_retry_witness:
  "isLoggedIn exampleAuth \<and> \<not> useRefreshToken exampleRequest \<and>
   shouldRefreshOnFailure exampleRequest \<and>
   transport (exampleEnv [invalidSession, ok ''session2'', ok ''result''] []) (length (sent exampleAuth))
     (prepared exampleAuth exampleRequest) = invalidSession \<and>
   fst (doAuthenticatedRequest (exampleEnv [invalidSession, ok ''session2'', ok ''result''] [])
     exampleAuth exampleRequest) = ok ''result'' \<and>
   accessToken (authInfo (snd (doAuthenticatedRequest
     (exampleEnv [invalidSession, ok ''session2'', ok ''result''] []) exampleAuth exampleRequest)))
     = Some ''a2'' \<and>
   length (sent (snd (doAuthenticatedRequest
     (exampleEnv [invalidSession, ok ''session2'', ok ''result''] []) exampleAuth exampleRequest))) \<le> 3"
proof -
  let ?E = "exampleEnv [invalidSession, ok ''session2'', ok ''result''] []"
  have h: "isLoggedIn exampleAuth" "\<not> useRefreshToken exampleRequest"
    "shouldRefreshOnFailure exampleRequest"
    "transport ?E (length (sent exampleAuth)) (prepared exampleAuth exampleRequest)
       = Inl (StitchServiceError ''invalid session'' InvalidSession)"
    "isInvalidSession (StitchServiceError ''invalid session'' InvalidSession)"
    by (simp_all add: example_defs isInvalidSession_def)
  have "length (sent (snd (doAuthenticatedRequest ?E exampleAuth exampleRequest)))
      \<le> length (sent exampleAuth) + 3"
    using doAuthenticatedRequest_single_retry [OF h] by blast
  then have len: "length (sent (snd (doAuthenticatedRequest ?E exampleAuth exampleRequest))) \<le> 3"
    by (simp add: exampleAuth_def)
  have r: "fst (doAuthenticatedRequest ?E exampleAuth exampleRequest) = ok ''result''"
    "accessToken (authInfo (snd (doAuthenticatedRequest ?E exampleAuth exampleRequest))) = Some ''a2''"
    by (simp_all add: run_defs example_defs)
  from h len r show ?thesis by (simp add: invalidSession_def)
qed

text \<open>
  Three calls rejected as an invalid session. In the first the refresh fails in the
  transport: the original request is not sent again. In the second the access token
  was issued after the request started: the request is retried and no refresh is
  sent. In the third the retried request is rejected as an invalid session and the
  storage refuses the logged-out auth info: the result is \<open>CouldNotPersistAuthInfo\<close>
  and the user is still in place.
\<close>

theorem doAuthenticatedRequest_retry_counterexample:
  "fst (doAuthenticatedRequest (exampleEnv [invalidSession, transportError] []) exampleAuth exampleRequest)
     = transportError \<and>
   map req_path (sent (snd (doAuthenticatedRequest (exampleEnv [invalidSession, transportError] [])
     exampleAuth exampleRequest))) = [''/functions/call'', ''/auth/session''] \<and>
   fst (doAuthenticatedRequest (exampleEnv [invalidSession, ok ''result''] []) freshAuth exampleRequest)
     = ok ''result'' \<and>
   map req_path (sent (snd (doAuthenticatedRequest (exampleEnv [invalidSession, ok ''result''] [])
     freshAuth exampleRequest))) = [''/functions/call'', ''/functions/call''] \<and>
   fst (doAuthenticatedRequest
     (exampleEnv [invalidSession, ok ''session2'', invalidSession] [True, False])
     exampleAuth exampleRequest) = Inl (StitchClientError CouldNotPersistAuthInfo) \<and>
   isLoggedIn (snd (doAuthenticatedRequest
     (exampleEnv [invalidSession, ok ''session2'', invalidSession] [True, False])
     exampleAuth exampleRequest))"
  by (simp add: run_defs example_defs freshAuth_def)

subsection \<open>The user across an authenticated request\<close>

text \<open>
  An authenticated request, with its refresh and its retry, keeps the current user or
  logs the user out; it keeps the user whenever it succeeds.
\<close>

lemma userKeptOrCleared_refl: "userKeptOrCleared st st"
  by (simp add: userKeptOrCleared_def)

lemma userKeptOrCleared_clearAuth: "userKeptOrCleared st (snd (clearAuth env st))"
  by (simp add: userKeptOrCleared_def clearAuth_explicit loggedOut_idem)

lemma userKeptOrCleared_step:
  "currentUser st1 = currentUser st \<Longrightarrow> userKeptOrCleared st1 st2 \<Longrightarrow> userKeptOrCleared st st2"
  by (simp add: userKeptOrCleared_def)

lemma user_flow:
  "userKeptOrCleared st (snd (doAuthenticatedRequest env st r)) \<and>
   (\<forall>x. fst (doAuthenticatedRequest env st r) = Inr x \<longrightarrow>
      currentUser (snd (doAuthenticatedRequest env st r)) = currentUser st)"
  "userKeptOrCleared st (snd (handleAuthFailure env st ex r)) \<and>
   (\<forall>x. fst (handleAuthFailure env st ex r) = Inr x \<longrightarrow>
      currentUser (snd (handleAuthFailure env st ex r)) = currentUser st)"
  "userKeptOrCleared st (snd (tryRefreshAccessToken env st t)) \<and>
   (\<forall>x. fst (tryRefreshAccessToken env st t) = Inr x \<longrightarrow>
      currentUser (snd (tryRefreshAccessToken env st t)) = currentUser st)"
  "userKeptOrCleared st (snd (refreshAccessToken env st)) \<and>
   (\<forall>x. fst (refreshAccessToken env st) = Inr x \<longrightarrow>
      currentUser (snd (refreshAccessToken env st)) = currentUser st)"
proof (induction env st r and env st ex r and env st t and env st
    rule: doAuthenticatedRequest_handleAuthFailure_tryRefreshAccessToken_refreshAccessToken.induct)
  case (1 env st stitchReq)
  show ?case
  proof (cases "prepareAuthRequest st stitchReq")
    case (Inl e)
    then show ?thesis by (simp add: doAuthenticatedRequest.simps userKeptOrCleared_refl)
  next
    case p: (Inr p)
    show ?thesis
    proof (cases "transport env (length (sent st)) p")
      case (Inl err)
      have "userKeptOrCleared (st\<lparr>sent := sent st @ [p]\<rparr>)
              (snd (handleAuthFailure env (st\<lparr>sent := sent st @ [p]\<rparr>) err stitchReq)) \<and>
            (\<forall>x. fst (handleAuthFailure env (st\<lparr>sent := sent st @ [p]\<rparr>) err stitchReq) = Inr x \<longrightarrow>
               currentUser (snd (handleAuthFailure env (st\<lparr>sent := sent st @ [p]\<rparr>) err stitchReq))
                 = currentUser (st\<lparr>sent := sent st @ [p]\<rparr>))"
        using "1.IH" [of p "Inl err" "st\<lparr>sent := sent st @ [p]\<rparr>" err] Inl p
        by (simp add: doRequest_def)
      then show ?thesis using p Inl
        by (simp add: doAuthenticatedRequest.simps doRequest_def userKeptOrCleared_def)
    next
      case (Inr response)
      then show ?thesis using p
        by (simp add: doAuthenticatedRequest.simps doRequest_def userKeptOrCleared_def)
    qed
  qed
next
  case (2 env st ex req)
  show ?case
  proof (cases "\<not> isInvalidSession ex")
    case True
    then show ?thesis by (simp add: handleAuthFailure.simps userKeptOrCleared_refl)
  next
    case inv: False
    show ?thesis
    proof (cases "useRefreshToken req \<or> \<not> shouldRefreshOnFailure req")
      case True
      have "userKeptOrCleared st (snd (clearAuth env st))" by (rule userKeptOrCleared_clearAuth)
      then show ?thesis using inv True
        by (cases "clearAuth env st") (auto simp: handleAuthFailure.simps split: sum.splits)
    next
      case False
      obtain r1 st1 where t: "tryRefreshAccessToken env st (startedAt req) = (r1, st1)"
        by (cases "tryRefreshAccessToken env st (startedAt req)")
      have p1: "userKeptOrCleared st st1" "\<forall>x. r1 = Inr x \<longrightarrow> currentUser st1 = currentUser st"
        using "2.IH"(1) False inv t by simp_all
      show ?thesis
      proof (cases r1)
        case (Inl e)
        then show ?thesis using inv False t p1 by (simp add: handleAuthFailure.simps)
      next
        case (Inr u)
        have c: "currentUser st1 = currentUser st" using p1 Inr by simp
        have "userKeptOrCleared st1 (snd (doAuthenticatedRequest env st1 (req\<lparr>shouldRefreshOnFailure := False\<rparr>))) \<and>
           (\<forall>x. fst (doAuthenticatedRequest env st1 (req\<lparr>shouldRefreshOnFailure := False\<rparr>)) = Inr x \<longrightarrow>
              currentUser (snd (doAuthenticatedRequest env st1 (req\<lparr>shouldRefreshOnFailure := False\<rparr>)))
                = currentUser st1)"
          using "2.IH"(2) [of r1 st1 u] False inv t Inr by simp
        then show ?thesis using inv False t c Inr
          by (simp add: handleAuthFailure.simps userKeptOrCleared_def)
      qed
    qed
  qed
next
  case (3 env st reqStartedAt)
  then show ?case by (simp add: tryRefreshAccessToken.simps userKeptOrCleared_refl)
next
  case (4 env st)
  obtain r1 st1 where d: "doAuthenticatedRequest env st (refreshRequest env st) = (r1, st1)"
    by (cases "doAuthenticatedRequest env st (refreshRequest env st)")
  have p1: "userKeptOrCleared st st1" "\<forall>x. r1 = Inr x \<longrightarrow> currentUser st1 = currentUser st"
    using 4 d by simp_all
  show ?case
  proof (cases r1)
    case (Inl e)
    then show ?thesis using d p1 by (simp add: refreshAccessToken.simps)
  next
    case (Inr response)
    then have "currentUser st1 = currentUser st" using p1 by simp
    then show ?thesis using d Inr
      by (auto simp: refreshAccessToken.simps writeToStorage_def Let_def userKeptOrCleared_def
          split: option.splits)
  qed
qed

subsection \<open>Login and link: the profile request fails\<close>

lemmas login_defs =
  doGetUserProfile_def processLogin_def processLoginRejected_def processLoginResponse_def
  doLoginRequest_def doLogin_def loginRequest_def linkRequest_def loginDocument_def
  profileRequest_def parseProfile_def isStitchError_def loginWithCredentialInternal_def
  linkUserWithCredentialInternal_def logoutInternalStart_def logoutInternalSettle_def
  passwordCredential_def anonymousCredential_def empty_AuthInfo_def loggedOutAuth_def
  login2Info_def

lemmas pending_defs =
  settleAfterDispatch_def doRequestP_def doAuthenticatedRequestP.simps handleAuthFailureP.simps
  tryRefreshAccessTokenP.simps refreshAccessTokenP.simps doGetUserProfileP_def processLoginP_def
  processLoginResponseP_def doLoginRequestP_def doLoginP_def settleAtEnd_def

lemma snd_doGetUserProfile:
  "snd (doGetUserProfile env st) = snd (doAuthenticatedRequest env st (profileRequest env st))"
  by (cases "doAuthenticatedRequest env st (profileRequest env st)")
     (auto simp: doGetUserProfile_def split: sum.splits option.splits)

lemma processLogin_unfold:
  "processLogin env st credential newAuthInfo asLinkRequest =
     (case doGetUserProfile env (provisional st credential newAuthInfo) of
        (Inl err, st2) \<Rightarrow>
          processLoginRejected env (authInfo st) (currentUser st) asLinkRequest err st2
      | (Inr profile, st2) \<Rightarrow>
          (let newAuthInfo2 = merge (provisionalInfo st credential newAuthInfo)
                 \<lparr>userId = userId (provisionalInfo st credential newAuthInfo),
                  deviceId = deviceId (provisionalInfo st credential newAuthInfo),
                  accessToken = accessToken (provisionalInfo st credential newAuthInfo),
                  refreshToken = refreshToken (provisionalInfo st credential newAuthInfo),
                  loggedInProviderType = Some (providerType credential),
                  loggedInProviderName = Some (providerName credential),
                  userProfile = Some profile\<rparr>
           in case writeToStorage env st2 newAuthInfo2 of
                (False, st3) \<Rightarrow>
                  processLoginRejected env (authInfo st) (currentUser st) asLinkRequest
                    (StitchClientError CouldNotPersistAuthInfo) st3
              | (True, st3) \<Rightarrow>
                  (let u = makeUser (userId newAuthInfo2) (Some (providerType credential))
                             (Some (providerName credential)) (Some profile)
                   in (Inr u, st3\<lparr>authInfo := newAuthInfo2, currentUser := Some u\<rparr>))))"
  unfolding processLogin_def provisional_def provisionalInfo_def Let_def by (rule refl)

lemma provisional_rejected:
  assumes "doGetUserProfile env (provisional st credential newAuthInfo) = (r, st2)"
  shows "isLoggedIn st2 \<or> authInfo st2 = loggedOut (authInfo st2)"
proof -
  have "userKeptOrCleared (provisional st credential newAuthInfo) st2"
    using user_flow(1) [of "provisional st credential newAuthInfo" env
        "profileRequest env (provisional st credential newAuthInfo)"]
      snd_doGetUserProfile [of env "provisional st credential newAuthInfo"] assms
    by simp
  then show ?thesis
    by (auto simp: userKeptOrCleared_def provisional_def isLoggedIn_def)
qed

text \<open>
  C4, as the code has it. Let the profile request that \<open>processLogin\<close> makes from the
  provisional state fail with an error. For a link, the auth info and the user that
  \<open>processLogin\<close> found are restored and the error of the profile request is the
  result. For a login, \<open>clearAuth\<close> runs and its failure, if any, is the result;
  when the storage accepts the write (or the failed profile request has logged the
  user out already), the result is the error of the profile request, no user is
  logged in and the auth info is in its logged-out form, without user id or tokens.
\<close>

theorem processLogin_profile_failure:
  assumes "doGetUserProfile env (provisional st credential newAuthInfo) = (Inl err, st2)"
  shows "processLogin env st credential newAuthInfo True
           = (Inl err, st2\<lparr>authInfo := authInfo st, currentUser := currentUser st\<rparr>) \<and>
         processLogin env st credential newAuthInfo False
           = (case clearAuth env st2 of
                (Inl e, st3) \<Rightarrow> (Inl e, st3)
              | (Inr u, st3) \<Rightarrow> (Inl err, st3)) \<and>
         (storageAccepts env (writeAttempts st2) \<or> \<not> isLoggedIn st2 \<longrightarrow>
            fst (processLogin env st credential newAuthInfo False) = Inl err \<and>
            \<not> isLoggedIn (snd (processLogin env st credential newAuthInfo False)) \<and>
            authInfo (snd (processLogin env st credential newAuthInfo False))
              = loggedOut (authInfo st2) \<and>
            userId (authInfo (snd (processLogin env st credential newAuthInfo False))) = None \<and>
            accessToken (authInfo (snd (processLogin env st credential newAuthInfo False))) = None \<and>
            refreshToken (authInfo (snd (processLogin env st credential newAuthInfo False))) = None)"
proof -
  have link: "processLogin env st credential newAuthInfo True
           = (Inl err, st2\<lparr>authInfo := authInfo st, currentUser := currentUser st\<rparr>)"
    using assms by (simp add: processLogin_unfold processLoginRejected_def)
  have login: "processLogin env st credential newAuthInfo False
           = (case clearAuth env st2 of
                (Inl e, st3) \<Rightarrow> (Inl e, st3)
              | (Inr u, st3) \<Rightarrow> (Inl err, st3))"
    using assms by (simp add: processLogin_unfold processLoginRejected_def)
  have cleared: "fst (processLogin env st credential newAuthInfo False) = Inl err \<and>
            \<not> isLoggedIn (snd (processLogin env st credential newAuthInfo False)) \<and>
            authInfo (snd (processLogin env st credential newAuthInfo False))
              = loggedOut (authInfo st2)"
    if "storageAccepts env (writeAttempts st2) \<or> \<not> isLoggedIn st2"
  proof (cases "isLoggedIn st2")
    case True
    then obtain cur where "currentUser st2 = Some cur"
      by (auto simp: isLoggedIn_def)
    with that True show ?thesis
      unfolding login by (simp add: clearAuth_explicit isLoggedIn_def)
  next
    case False
    with provisional_rejected [OF assms] have "authInfo st2 = loggedOut (authInfo st2)"
      by simp
    with False show ?thesis
      unfolding login by (simp add: clearAuth_loggedOut)
  qed
  show ?thesis
    using link login cleared by (auto simp: loggedOut_def)
qed

theorem processLogin_profile_failure_witness:
  "doGetUserProfile (exampleEnv [transportError] []) (provisional exampleAuth passwordCredential login2Info)
     = (transportError,
        (provisional exampleAuth passwordCredential login2Info)
          \<lparr>sent := [prepared (provisional exampleAuth passwordCredential login2Info)
             (profileRequest (exampleEnv [transportError] []) (provisional exampleAuth passwordCredential login2Info))]\<rparr>) \<and>
   fst (processLogin (exampleEnv [transportError] []) exampleAuth passwordCredential login2Info True)
     = transportError \<and>
   authInfo (snd (processLogin (exampleEnv [transportError] []) exampleAuth passwordCredential login2Info True))
     = exampleInfo \<and>
   currentUser (snd (processLogin (exampleEnv [transportError] []) exampleAuth passwordCredential login2Info True))
     = Some exampleUser \<and>
   fst (processLogin (exampleEnv [transportError] []) loggedOutAuth passwordCredential login2Info False)
     = transportError \<and>
   \<not> isLoggedIn (snd (processLogin (exampleEnv [transportError] []) loggedOutAuth passwordCredential login2Info False))"
proof -
  let ?E = "exampleEnv [transportError] []"
  let ?p = "provisional exampleAuth passwordCredential login2Info"
  let ?q = "provisional loggedOutAuth passwordCredential login2Info"
  have g: "doGetUserProfile ?E ?p
     = (Inl (StitchRequestError (JSError ''network'') TRANSPORT_ERROR),
        ?p\<lparr>sent := [prepared ?p (profileRequest ?E ?p)]\<rparr>)"
    by (simp add: run_defs example_defs login_defs provisional_def provisionalInfo_def)
  have g': "doGetUserProfile ?E ?q
     = (Inl (StitchRequestError (JSError ''network'') TRANSPORT_ERROR),
        ?q\<lparr>sent := [prepared ?q (profileRequest ?E ?q)]\<rparr>)"
    by (simp add: run_defs example_defs login_defs provisional_def provisionalInfo_def)
  have w: "storageAccepts ?E (writeAttempts (?q\<lparr>sent := [prepared ?q (profileRequest ?E ?q)]\<rparr>))"
    by (simp add: example_defs login_defs provisional_def)
  from processLogin_profile_failure [OF g]
  have "processLogin ?E exampleAuth passwordCredential login2Info True
      = (Inl (StitchRequestError (JSError ''network'') TRANSPORT_ERROR),
         ?p\<lparr>sent := [prepared ?p (profileRequest ?E ?p)], authInfo := authInfo exampleAuth,
            currentUser := currentUser exampleAuth\<rparr>)"
    by simp
  then have a: "fst (processLogin ?E exampleAuth passwordCredential login2Info True) = transportError"
    "authInfo (snd (processLogin ?E exampleAuth passwordCredential login2Info True)) = exampleInfo"
    "currentUser (snd (processLogin ?E exampleAuth passwordCredential login2Info True)) = Some exampleUser"
    by (simp_all add: exampleAuth_def transportError_def)
  from processLogin_profile_failure [OF g'] w
  have "fst (processLogin ?E loggedOutAuth passwordCredential login2Info False)
      = Inl (StitchRequestError (JSError ''network'') TRANSPORT_ERROR) \<and>
    \<not> isLoggedIn (snd (processLogin ?E loggedOutAuth passwordCredential login2Info False))"
    by blast
  then have b: "fst (processLogin ?E loggedOutAuth passwordCredential login2Info False) = transportError"
    "\<not> isLoggedIn (snd (processLogin ?E loggedOutAuth passwordCredential login2Info False))"
    by (simp_all add: transportError_def)
  from g a b show ?thesis by (simp add: transportError_def)
qed

text \<open>
  A login whose profile request fails while the storage refuses the logged-out auth
  info: the caller gets \<open>CouldNotPersistAuthInfo\<close>, not the error of the profile
  request, and the provisional user stays in place.
\<close>

theorem login_profile_failure_counterexample:
  "fst (doLoginRequest (exampleEnv [ok ''login2'', transportError] [False]) loggedOutAuth
          passwordCredential False) = ok ''login2'' \<and>
   fst (loginWithCredentialInternal (exampleEnv [ok ''login2'', transportError] [False])
          LogoutSettlesFirst loggedOutAuth passwordCredential)
     = Inl (StitchClientError CouldNotPersistAuthInfo) \<and>
   isLoggedIn (snd (loginWithCredentialInternal (exampleEnv [ok ''login2'', transportError] [False])
          LogoutSettlesFirst loggedOutAuth passwordCredential)) \<and>
   map req_path (sent (snd (loginWithCredentialInternal
          (exampleEnv [ok ''login2'', transportError] [False])
          LogoutSettlesFirst loggedOutAuth passwordCredential)))
     = [''/auth/providers/local-userpass/login'', ''/auth/profile'']"
  by (simp add: run_defs example_defs login_defs)

subsection \<open>The requests sent\<close>

text \<open>
  Requests are only ever added to the log, and an authenticated request made while a
  user is logged in is sent first as \<open>prepareAuthRequest\<close> builds it.
\<close>

lemma sent_mono:
  "prefix (sent st) (sent (snd (doAuthenticatedRequest env st r)))"
  "prefix (sent st) (sent (snd (handleAuthFailure env st ex r)))"
  "prefix (sent st) (sent (snd (tryRefreshAccessToken env st t)))"
  "prefix (sent st) (sent (snd (refreshAccessToken env st)))"
proof (induction env st r and env st ex r and env st t and env st
    rule: doAuthenticatedRequest_handleAuthFailure_tryRefreshAccessToken_refreshAccessToken.induct)
  case (1 env st stitchReq)
  show ?case
  proof (cases "prepareAuthRequest st stitchReq")
    case (Inl e)
    then show ?thesis by (simp add: doAuthenticatedRequest.simps)
  next
    case p: (Inr p)
    show ?thesis
    proof (cases "transport env (length (sent st)) p")
      case (Inl err)
      have "prefix (sent (st\<lparr>sent := sent st @ [p]\<rparr>))
              (sent (snd (handleAuthFailure env (st\<lparr>sent := sent st @ [p]\<rparr>) err stitchReq)))"
        using "1.IH" [of p "Inl err" "st\<lparr>sent := sent st @ [p]\<rparr>" err] Inl p
        by (simp add: doRequest_def)
      then have "prefix (sent st)
              (sent (snd (handleAuthFailure env (st\<lparr>sent := sent st @ [p]\<rparr>) err stitchReq)))"
        by (auto simp: prefix_def)
      then show ?thesis using p Inl by (simp add: doAuthenticatedRequest.simps doRequest_def)
    next
      case (Inr response)
      then show ?thesis using p by (simp add: doAuthenticatedRequest.simps doRequest_def)
    qed
  qed
next
  case (2 env st ex req)
  show ?case
  proof (cases "\<not> isInvalidSession ex")
    case True
    then show ?thesis by (simp add: handleAuthFailure.simps)
  next
    case inv: False
    show ?thesis
    proof (cases "useRefreshToken req \<or> \<not> shouldRefreshOnFailure req")
      case True
      have "sent (snd (clearAuth env st)) = sent st" by (rule sent_clearAuth)
      then show ?thesis using inv True
        by (cases "clearAuth env st") (auto simp: handleAuthFailure.simps split: sum.splits)
    next
      case False
      obtain r1 st1 where t: "tryRefreshAccessToken env st (startedAt req) = (r1, st1)"
        by (cases "tryRefreshAccessToken env st (startedAt req)")
      have p1: "prefix (sent st) (sent st1)"
        using "2.IH"(1) False inv t by simp
      show ?thesis
      proof (cases r1)
        case (Inl e)
        then show ?thesis using inv False t p1 by (simp add: handleAuthFailure.simps)
      next
        case (Inr u)
        have "prefix (sent st1)
            (sent (snd (doAuthenticatedRequest env st1 (req\<lparr>shouldRefreshOnFailure := False\<rparr>))))"
          using "2.IH"(2) [of r1 st1 u] False inv t Inr by simp
        with p1 have "prefix (sent st)
            (sent (snd (doAuthenticatedRequest env st1 (req\<lparr>shouldRefreshOnFailure := False\<rparr>))))"
          by (rule prefix_order.trans)
        then show ?thesis using inv False t Inr by (simp add: handleAuthFailure.simps)
      qed
    qed
  qed
next
  case (3 env st reqStartedAt)
  then show ?case by (simp add: tryRefreshAccessToken.simps)
next
  case (4 env st)
  have "prefix (sent st) (sent (snd (doAuthenticatedRequest env st (refreshRequest env st))))"
    using 4 by simp
  then show ?case
    by (cases "doAuthenticatedRequest env st (refreshRequest env st)")
       (auto simp: refreshAccessToken.simps writeToStorage_def Let_def
          split: sum.splits option.splits)
qed

lemma sent_first:
  assumes "isLoggedIn st"
  shows "prefix (sent st @ [prepared st r]) (sent (snd (doAuthenticatedRequest env st r)))"
proof (cases "transport env (length (sent st)) (prepared st r)")
  case (Inl err)
  have "prefix (sent (st\<lparr>sent := sent st @ [prepared st r]\<rparr>))
      (sent (snd (handleAuthFailure env (st\<lparr>sent := sent st @ [prepared st r]\<rparr>) err r)))"
    by (rule sent_mono(2))
  then show ?thesis using assms Inl
    by (simp add: doAuthenticatedRequest.simps prepareAuthRequest_loggedIn doRequest_def)
next
  case (Inr response)
  then show ?thesis using assms
    by (simp add: doAuthenticatedRequest.simps prepareAuthRequest_loggedIn doRequest_def)
qed

lemma sent_processLoginRejected:
  "sent (snd (processLoginRejected env oldInfo oldUser asLinkRequest err st)) = sent st"
  by (simp add: processLoginRejected_def clearAuth_explicit)

lemma sent_processLogin:
  "prefix (sent st) (sent (snd (processLogin env st credential newAuthInfo asLinkRequest)))"
proof -
  obtain r st2 where g: "doGetUserProfile env (provisional st credential newAuthInfo) = (r, st2)"
    by (cases "doGetUserProfile env (provisional st credential newAuthInfo)")
  have "prefix (sent (provisional st credential newAuthInfo)) (sent st2)"
    using sent_mono(1) [of "provisional st credential newAuthInfo" env
        "profileRequest env (provisional st credential newAuthInfo)"]
      snd_doGetUserProfile [of env "provisional st credential newAuthInfo"] g
    by simp
  then have p: "prefix (sent st) (sent st2)" by (simp add: provisional_def)
  show ?thesis
  proof (cases r)
    case (Inl err)
    then show ?thesis using g p
      by (simp add: processLogin_unfold sent_processLoginRejected)
  next
    case (Inr profile)
    then show ?thesis using g p
      by (simp add: processLogin_unfold sent_processLoginRejected writeToStorage_def Let_def)
  qed
qed

lemma sent_processLoginResponse:
  "prefix (sent st) (sent (snd (processLoginResponse env st credential response asLinkRequest)))"
  by (simp add: processLoginResponse_def sent_processLogin split: option.splits)

lemma doLogin_link_sent:
  assumes "isLoggedIn st"
  shows "prefix (sent st @ [prepared st (linkRequest env st credential)])
           (sent (snd (doLogin env st credential True)))"
proof -
  obtain r st1 where d: "doAuthenticatedRequest env st (linkRequest env st credential) = (r, st1)"
    by (cases "doAuthenticatedRequest env st (linkRequest env st credential)")
  have p: "prefix (sent st @ [prepared st (linkRequest env st credential)]) (sent st1)"
    using sent_first [OF assms, of "linkRequest env st credential" env] d by simp
  show ?thesis
  proof (cases r)
    case (Inl e)
    then show ?thesis using d p by (simp add: doLogin_def doLoginRequest_def)
  next
    case (Inr response)
    obtain r2 st2 where q: "processLoginResponse env st1 credential response True = (r2, st2)"
      by (cases "processLoginResponse env st1 credential response True")
    have "prefix (sent st1) (sent st2)"
      using sent_processLoginResponse [of st1 env credential response True] q by simp
    with p have "prefix (sent st @ [prepared st (linkRequest env st credential)]) (sent st2)"
      by (rule prefix_order.trans)
    then show ?thesis using d Inr q
      by (cases r2) (simp_all add: doLogin_def doLoginRequest_def onAuthEvent_def)
  qed
qed

subsection \<open>Link\<close>

text \<open>
  C7. When a user is logged in and the supplied user's id differs from the logged-in
  user's id, \<open>linkUserWithCredentialInternal\<close> fails with \<open>UserNoLongerValid\<close> and
  changes nothing. When the ids agree it is \<open>doLogin\<close> as a link: the login request
  is made by \<open>doAuthenticatedRequest\<close>, so the first request sent goes to the
  provider's link route and carries the access token of the current session. When no
  user is logged in, the link, being an authenticated request, fails with
  \<open>MustAuthenticateFirst\<close>.
\<close>

theorem linkUserWithCredentialInternal_checks_user:
  "(\<forall>cur. currentUser st = Some cur \<and> user_id usr \<noteq> user_id cur \<longrightarrow>
      linkUserWithCredentialInternal env st usr credential
        = (Inl (StitchClientError UserNoLongerValid), st)) \<and>
   (\<forall>cur. currentUser st = Some cur \<and> user_id usr = user_id cur \<longrightarrow>
      linkUserWithCredentialInternal env st usr credential = doLogin env st credential True \<and>
      doLoginRequest env st credential True
        = doAuthenticatedRequest env st (linkRequest env st credential) \<and>
      prefix (sent st @ [prepared st (linkRequest env st credential)])
        (sent (snd (linkUserWithCredentialInternal env st usr credential))) \<and>
      req_path (prepared st (linkRequest env st credential))
        = getAuthProviderLinkRoute env (providerName credential) \<and>
      req_headers (prepared st (linkRequest env st credential)) AUTHORIZATION
        = Some (getAuthorizationBearer (accessToken (authInfo st)))) \<and>
   (currentUser st = None \<longrightarrow>
      linkUserWithCredentialInternal env st usr credential
        = (Inl (StitchClientError MustAuthenticateFirst), st))"
proof (cases "currentUser st")
  case None
  then show ?thesis
    by (simp add: linkUserWithCredentialInternal_def doLogin_def doLoginRequest_def
        doAuthenticatedRequest.simps prepareAuthRequest_def isLoggedIn_def)
next
  case (Some cur)
  then have l: "isLoggedIn st" by (simp add: isLoggedIn_def)
  show ?thesis
    using Some doLogin_link_sent [OF l, of env credential]
    by (simp add: linkUserWithCredentialInternal_def doLoginRequest_def prepared_def
        linkRequest_def build_def)
qed

theorem linkUserWithCredentialInternal_checks_user_witness:
  "currentUser exampleAuth = Some exampleUser \<and>
   user_id (exampleUser\<lparr>user_id := Some ''u9''\<rparr>) \<noteq> user_id exampleUser \<and>
   linkUserWithCredentialInternal (exampleEnv [] []) exampleAuth
     (exampleUser\<lparr>user_id := Some ''u9''\<rparr>) passwordCredential
     = (Inl (StitchClientError UserNoLongerValid), exampleAuth) \<and>
   req_path (hd (sent (snd (linkUserWithCredentialInternal
     (exampleEnv [ok ''login2'', ok ''alice''] []) exampleAuth exampleUser passwordCredential))))
     = ''/auth/providers/local-userpass/login?link=true'' \<and>
   req_headers (hd (sent (snd (linkUserWithCredentialInternal
     (exampleEnv [ok ''login2'', ok ''alice''] []) exampleAuth exampleUser passwordCredential))))
     AUTHORIZATION = Some ''Bearer a1''"
proof -
  let ?E = "exampleEnv [ok ''login2'', ok ''alice''] []"
  have c: "currentUser exampleAuth = Some exampleUser"
    and n: "user_id (exampleUser\<lparr>user_id := Some ''u9''\<rparr>) \<noteq> user_id exampleUser"
    by (simp_all add: example_defs)
  from linkUserWithCredentialInternal_checks_user
    [of exampleAuth "exampleUser\<lparr>user_id := Some ''u9''\<rparr>" "exampleEnv [] []" passwordCredential] c n
  have a: "linkUserWithCredentialInternal (exampleEnv [] []) exampleAuth
     (exampleUser\<lparr>user_id := Some ''u9''\<rparr>) passwordCredential
     = (Inl (StitchClientError UserNoLongerValid), exampleAuth)"
    by blast
  from linkUserWithCredentialInternal_checks_user [of exampleAuth exampleUser ?E passwordCredential] c
  have "prefix (sent exampleAuth @ [prepared exampleAuth (linkRequest ?E exampleAuth passwordCredential)])
        (sent (snd (linkUserWithCredentialInternal ?E exampleAuth exampleUser passwordCredential)))"
    by blast
  then have "hd (sent (snd (linkUserWithCredentialInternal ?E exampleAuth exampleUser passwordCredential)))
      = prepared exampleAuth (linkRequest ?E exampleAuth passwordCredential)"
    by (auto simp: exampleAuth_def prefix_def)
  then have b: "req_path (hd (sent (snd (linkUserWithCredentialInternal ?E exampleAuth exampleUser
        passwordCredential)))) = ''/auth/providers/local-userpass/login?link=true''"
    "req_headers (hd (sent (snd (linkUserWithCredentialInternal ?E exampleAuth exampleUser
        passwordCredential)))) AUTHORIZATION = Some ''Bearer a1''"
    by (simp_all add: run_defs example_defs login_defs)
  from a b c n show ?thesis by blast
qed

subsection \<open>Login while a user is logged in\<close>

text \<open>
  \<open>logoutInternal\<close> is its start followed at once by its settlement.
\<close>

lemma logoutInternal_split:
  "logoutInternal env st =
     (case logoutInternalStart env st of
        (None, st1) \<Rightarrow> (Inr (), st1)
      | (Some pending, st1) \<Rightarrow> logoutInternalSettle env st1 pending)"
proof (cases "isLoggedIn st")
  case False
  then show ?thesis by (simp add: logoutInternal_def logoutInternalStart_def)
next
  case True
  show ?thesis
  proof (cases "transport env (length (sent st)) (prepared st (logoutRequest env st))")
    case (Inl err)
    with True show ?thesis
      by (simp add: logoutInternal_def logoutInternalStart_def logoutInternalSettle_def
          doLogout_def doAuthenticatedRequest.simps prepareAuthRequest_loggedIn doRequest_def)
  next
    case (Inr response)
    with True show ?thesis
      by (simp add: logoutInternal_def logoutInternalStart_def logoutInternalSettle_def
          doLogout_def doAuthenticatedRequest.simps prepareAuthRequest_loggedIn doRequest_def)
  qed
qed

text \<open>
  X1. A credential that reuses the existing session, for the provider type the user is
  logged in with, returns the current user: the state is as it was, so nothing is
  sent and nothing is written.
\<close>

theorem loginWithCredentialInternal_reuses_session:
  assumes "currentUser st = Some cur" and "authResponse credential = None"
    and "reusesExistingSession (providerCapabilities credential)"
    and "Some (providerType credential) = user_loggedInProviderType cur"
  shows "loginWithCredentialInternal env order st credential = (Inr cur, st)"
  using assms by (simp add: loginWithCredentialInternal_def)

theorem loginWithCredentialInternal_reuses_session_witness:
  "currentUser exampleAuth = Some exampleUser \<and> authResponse anonymousCredential = None \<and>
   reusesExistingSession (providerCapabilities anonymousCredential) \<and>
   Some (providerType anonymousCredential) = user_loggedInProviderType exampleUser \<and>
   loginWithCredentialInternal (exampleEnv [] []) LoginSettlesFirst exampleAuth anonymousCredential
     = (Inr exampleUser, exampleAuth)"
proof -
  have h: "currentUser exampleAuth = Some exampleUser" "authResponse anonymousCredential = None"
    "reusesExistingSession (providerCapabilities anonymousCredential)"
    "Some (providerType anonymousCredential) = user_loggedInProviderType exampleUser"
    by (simp_all add: example_defs anonymousCredential_def)
  from loginWithCredentialInternal_reuses_session [OF h] h show ?thesis by blast
qed

text \<open>
  X2. With any other credential that is not a response credential, and the session-delete
  request settled before the login response is handled, the login is a logout
  followed by a login from the state the logout leaves.
\<close>

theorem loginWithCredentialInternal_logout_first:
  assumes "currentUser st = Some cur" and "authResponse credential = None"
    and "\<not> (reusesExistingSession (providerCapabilities credential) \<and>
            Some (providerType credential) = user_loggedInProviderType cur)"
  shows "loginWithCredentialInternal env LogoutSettlesFirst st credential
           = doLogin env (snd (logoutInternal env st)) credential False"
proof -
  have l: "isLoggedIn st" using assms(1) by (simp add: isLoggedIn_def)
  have s: "logoutInternalStart env st
      = (Some (logoutRequest env st, transport env (length (sent st)) (prepared st (logoutRequest env st))),
         st\<lparr>sent := sent st @ [prepared st (logoutRequest env st)]\<rparr>)"
    using l by (simp add: logoutInternalStart_def prepareAuthRequest_loggedIn doRequest_def)
  show ?thesis
    using assms s by (auto simp: loginWithCredentialInternal_def logoutInternal_split)
qed

theorem loginWithCredentialInternal_logout_first_witness:
  "currentUser exampleAuth = Some exampleUser \<and> authResponse passwordCredential = None \<and>
   \<not> reusesExistingSession (providerCapabilities passwordCredential) \<and>
   loginWithCredentialInternal (exampleEnv [ok '''', ok ''login2'', ok ''alice''] [])
     LogoutSettlesFirst exampleAuth passwordCredential
     = doLogin (exampleEnv [ok '''', ok ''login2'', ok ''alice''] [])
         (snd (logoutInternal (exampleEnv [ok '''', ok ''login2'', ok ''alice''] []) exampleAuth))
         passwordCredential False"
proof -
  have h: "currentUser exampleAuth = Some exampleUser" "authResponse passwordCredential = None"
    and n: "\<not> reusesExistingSession (providerCapabilities passwordCredential)"
    by (simp_all add: example_defs passwordCredential_def)
  from n have "\<not> (reusesExistingSession (providerCapabilities passwordCredential) \<and>
      Some (providerType passwordCredential) = user_loggedInProviderType exampleUser)"
    by simp
  from loginWithCredentialInternal_logout_first [OF h this] h n show ?thesis by blast
qed

subsection \<open>The session-delete request settling during the login\<close>

text \<open>
  With no logout pending, the functions that carry a pending logout are the functions of
  the client.
\<close>

lemma noPending:
  "doAuthenticatedRequestP env None st r =
     (case doAuthenticatedRequest env st r of (x, s) \<Rightarrow> (x, s, None))"
  "handleAuthFailureP env None st ex r =
     (case handleAuthFailure env st ex r of (x, s) \<Rightarrow> (x, s, None))"
  "tryRefreshAccessTokenP env None st t =
     (case tryRefreshAccessToken env st t of (x, s) \<Rightarrow> (x, s, None))"
  "refreshAccessTokenP env None st =
     (case refreshAccessToken env st of (x, s) \<Rightarrow> (x, s, None))"
proof (induction env st r and env st ex r and env st t and env st
    rule: doAuthenticatedRequest_handleAuthFailure_tryRefreshAccessToken_refreshAccessToken.induct)
  case (1 env st stitchReq)
  show ?case
  proof (cases "prepareAuthRequest st stitchReq")
    case (Inl e)
    then show ?thesis
      by (simp add: doAuthenticatedRequest.simps doAuthenticatedRequestP.simps)
  next
    case p: (Inr p)
    show ?thesis
    proof (cases "transport env (length (sent st)) p")
      case (Inl err)
      have "handleAuthFailureP env None (st\<lparr>sent := sent st @ [p]\<rparr>) err stitchReq =
          (case handleAuthFailure env (st\<lparr>sent := sent st @ [p]\<rparr>) err stitchReq of
             (x, s) \<Rightarrow> (x, s, None))"
        using "1.IH" [of p "Inl err" "st\<lparr>sent := sent st @ [p]\<rparr>" err] Inl p
        by (simp add: doRequest_def)
      then show ?thesis using p Inl
        by (simp add: doAuthenticatedRequest.simps doAuthenticatedRequestP.simps doRequest_def
            doRequestP_def settleAfterDispatch_def)
    next
      case (Inr response)
      then show ?thesis using p
        by (simp add: doAuthenticatedRequest.simps doAuthenticatedRequestP.simps doRequest_def
            doRequestP_def settleAfterDispatch_def)
    qed
  qed
next
  case (2 env st ex req)
  show ?case
  proof (cases "\<not> isInvalidSession ex")
    case True
    then show ?thesis by (simp add: handleAuthFailure.simps handleAuthFailureP.simps)
  next
    case inv: False
    show ?thesis
    proof (cases "useRefreshToken req \<or> \<not> shouldRefreshOnFailure req")
      case True
      then show ?thesis using inv
        by (cases "clearAuth env st")
           (auto simp: handleAuthFailure.simps handleAuthFailureP.simps split: sum.splits)
    next
      case False
      obtain r1 st1 where t: "tryRefreshAccessToken env st (startedAt req) = (r1, st1)"
        by (cases "tryRefreshAccessToken env st (startedAt req)")
      have tp: "tryRefreshAccessTokenP env None st (startedAt req) = (r1, st1, None)"
        using "2.IH"(1) False inv t by simp
      show ?thesis
      proof (cases r1)
        case (Inl e)
        then show ?thesis using inv False t tp
          by (simp add: handleAuthFailure.simps handleAuthFailureP.simps)
      next
        case (Inr u)
        have "doAuthenticatedRequestP env None st1 (req\<lparr>shouldRefreshOnFailure := False\<rparr>) =
            (case doAuthenticatedRequest env st1 (req\<lparr>shouldRefreshOnFailure := False\<rparr>) of
               (x, s) \<Rightarrow> (x, s, None))"
          using "2.IH"(2) [of r1 st1 u] False inv t Inr by simp
        then show ?thesis using inv False t tp Inr
          by (simp add: handleAuthFailure.simps handleAuthFailureP.simps)
      qed
    qed
  qed
next
  case (3 env st reqStartedAt)
  then show ?case
    by (simp add: tryRefreshAccessToken.simps tryRefreshAccessTokenP.simps)
next
  case (4 env st)
  then show ?case
    by (cases "doAuthenticatedRequest env st (refreshRequest env st)")
       (auto simp: refreshAccessToken.simps refreshAccessTokenP.simps Let_def
          split: sum.splits option.splits prod.splits bool.splits)
qed

lemma doGetUserProfileP_noPending:
  "doGetUserProfileP env None st = (case doGetUserProfile env st of (x, s) \<Rightarrow> (x, s, None))"
  by (cases "doAuthenticatedRequest env st (profileRequest env st)")
     (auto simp: doGetUserProfileP_def doGetUserProfile_def noPending(1)
        split: sum.splits option.splits)

lemma processLoginP_noPending:
  "processLoginP env None st credential newAuthInfo asLinkRequest =
     (case processLogin env st credential newAuthInfo asLinkRequest of (x, s) \<Rightarrow> (x, s, None))"
  unfolding processLoginP_def processLogin_def Let_def doGetUserProfileP_noPending
  by (auto split: prod.splits sum.splits bool.splits)

lemma processLoginResponseP_noPending:
  "processLoginResponseP env None st credential response asLinkRequest =
     (case processLoginResponse env st credential response asLinkRequest of
        (x, s) \<Rightarrow> (x, s, None))"
  by (simp add: processLoginResponseP_def processLoginResponse_def processLoginP_noPending
      split: option.splits)

lemma doLoginP_noPending:
  "doLoginP env None st credential asLinkRequest =
     (case doLogin env st credential asLinkRequest of (x, s) \<Rightarrow> (x, s, None))"
proof -
  have r: "doLoginRequestP env None st credential asLinkRequest =
      (case doLoginRequest env st credential asLinkRequest of (x, s) \<Rightarrow> (x, s, None))"
    by (simp add: doLoginRequestP_def doLoginRequest_def noPending(1) doRequestP_def
        settleAfterDispatch_def split: prod.splits)
  show ?thesis
    by (cases "doLoginRequest env st credential asLinkRequest")
       (simp add: doLoginP_def doLogin_def r processLoginResponseP_noPending
          split: sum.splits prod.splits)
qed

lemma logoutHandlers_sent:
  "logoutHandlers env (x, st\<lparr>sent := xs\<rparr>) =
     (case logoutHandlers env (x, st) of (y, s) \<Rightarrow> (y, s\<lparr>sent := xs\<rparr>))"
  by (cases x) (simp_all add: logoutHandlers_def clearAuth_explicit)

lemma logoutInternalSettle_sent:
  assumes "useRefreshToken (fst p)"
  shows "logoutInternalSettle env (st\<lparr>sent := xs\<rparr>) p =
     (case logoutInternalSettle env st p of (x, s) \<Rightarrow> (x, s\<lparr>sent := xs\<rparr>))"
proof -
  obtain req res where p: "p = (req, res)" by (cases p)
  with assms have u: "useRefreshToken req" by simp
  show ?thesis
  proof (cases res)
    case (Inr response)
    then show ?thesis using p by (simp add: logoutInternalSettle_def logoutHandlers_sent)
  next
    case (Inl err)
    have h: "handleAuthFailure env s err req =
        (if \<not> isInvalidSession err then (Inl err, s)
         else (case clearAuth env s of
                 (Inl e, s1) \<Rightarrow> (Inl e, s1)
               | (Inr u, s1) \<Rightarrow> (Inl err, s1)))" for s
      using u by (simp add: handleAuthFailure.simps)
    show ?thesis
    proof (cases "isInvalidSession err")
      case False
      then show ?thesis using p Inl
        by (simp add: logoutInternalSettle_def h logoutHandlers_sent)
    next
      case True
      then show ?thesis using p Inl
        by (simp add: logoutInternalSettle_def h logoutHandlers_def clearAuth_explicit)
    qed
  qed
qed

lemma sent_logoutInternalSettle:
  assumes "useRefreshToken (fst p)"
  shows "sent (snd (logoutInternalSettle env st p)) = sent st"
proof -
  obtain x s where e: "logoutInternalSettle env st p = (x, s)"
    by (cases "logoutInternalSettle env st p")
  have "logoutInternalSettle env (st\<lparr>sent := sent st\<rparr>) p =
     (case logoutInternalSettle env st p of (x, s) \<Rightarrow> (x, s\<lparr>sent := sent st\<rparr>))"
    using assms by (rule logoutInternalSettle_sent)
  then have "s = s\<lparr>sent := sent st\<rparr>" using e by simp
  then have "sent s = sent (s\<lparr>sent := sent st\<rparr>)" by (rule arg_cong)
  then show ?thesis using e by simp
qed

text \<open>
  A session-delete request that settles while the login request is in flight leaves the
  login as it is when the request settles before the login starts: the handlers of the
  logout do not read the log of dispatched requests, and the login response is handled
  in the state they leave.
\<close>

lemma doLoginP_settled_at_once:
  assumes "useRefreshToken (fst p)"
  shows "settleAtEnd env (doLoginP env (Some (p, 0)) st credential False)
           = doLogin env (snd (logoutInternalSettle env st p)) credential False"
proof -
  obtain x s where e: "logoutInternalSettle env st p = (x, s)"
    by (cases "logoutInternalSettle env st p")
  have ss: "sent s = sent st"
    using sent_logoutInternalSettle [OF assms, where env = env and st = st] e by simp
  have lr: "loginRequest env s credential = loginRequest env st credential"
    using ss by (simp add: loginRequest_def)
  have st': "snd (logoutInternalSettle env
      (st\<lparr>sent := sent st @ [loginRequest env st credential]\<rparr>) p)
      = s\<lparr>sent := sent st @ [loginRequest env st credential]\<rparr>"
    using logoutInternalSettle_sent [OF assms, where env = env and st = st] e by simp
  show ?thesis
    using e ss lr st'
    by (auto simp: doLoginP_def doLoginRequestP_def doRequestP_def doRequest_def
        settleAfterDispatch_def doLogin_def doLoginRequest_def settleAtEnd_def
        processLoginResponseP_noPending split: sum.splits prod.splits)
qed

text \<open>
  X8. The session-delete request may settle after the login response is stored. With the
  password credential and a profile request rejected as an invalid session: when the
  logout settles while the profile request is in flight, handleAuthFailure finds nobody
  logged in and the login fails with LoggedOutDuringRequest; when it settles while the
  refresh request is in flight, the retry of the profile request finds nobody logged in
  and the login fails with MustAuthenticateFirst. In both runs nobody is logged in at the
  end.
\<close>

theorem loginWithCredentialInternal_logout_during_login:
  "fst (loginWithCredentialInternal (exampleEnv [ok ''done'', ok ''login2'', invalidSession] [])
          (LogoutSettlesDuring 0) exampleAuth passwordCredential)
     = Inl (StitchClientError LoggedOutDuringRequest) \<and>
   \<not> isLoggedIn (snd (loginWithCredentialInternal
          (exampleEnv [ok ''done'', ok ''login2'', invalidSession] [])
          (LogoutSettlesDuring 0) exampleAuth passwordCredential)) \<and>
   map req_path (sent (snd (loginWithCredentialInternal
          (exampleEnv [ok ''done'', ok ''login2'', invalidSession] [])
          (LogoutSettlesDuring 0) exampleAuth passwordCredential)))
     = [''/auth/session'', ''/auth/providers/local-userpass/login'', ''/auth/profile''] \<and>
   fst (loginWithCredentialInternal
          (exampleEnv [ok ''done'', ok ''login2'', invalidSession, ok ''session2''] [])
          (LogoutSettlesDuring 1) exampleAuth passwordCredential)
     = Inl (StitchClientError MustAuthenticateFirst) \<and>
   \<not> isLoggedIn (snd (loginWithCredentialInternal
          (exampleEnv [ok ''done'', ok ''login2'', invalidSession, ok ''session2''] [])
          (LogoutSettlesDuring 1) exampleAuth passwordCredential)) \<and>
   map req_path (sent (snd (loginWithCredentialInternal
          (exampleEnv [ok ''done'', ok ''login2'', invalidSession, ok ''session2''] [])
          (LogoutSettlesDuring 1) exampleAuth passwordCredential)))
     = [''/auth/session'', ''/auth/providers/local-userpass/login'', ''/auth/profile'',
        ''/auth/session'']"
  by (simp add: run_defs example_defs login_defs pending_defs)

text \<open>
  C9. The source calls \<open>this.logoutInternal()\<close> and does not wait for its promise.
  Here the user \<open>u1\<close> logs in with a password credential, and the transport settles
  the login and the profile request before the session-delete request: the caller
  gets the new user \<open>u2\<close>, and then the handlers of the logout clear the state of
  that new login, in memory and in the storage. Three requests are sent, the
  session-delete first. Had the session-delete request settled first, \<open>u2\<close> would be
  logged in at the end.
\<close>

theorem loginWithCredentialInternal_logout_not_awaited:
  "fst (loginWithCredentialInternal (exampleEnv [ok '''', ok ''login2'', ok ''alice''] [])
          LoginSettlesFirst exampleAuth passwordCredential)
     = Inr (makeUser (Some ''u2'') (Some ''local-userpass'') (Some ''local-userpass'')
              (Some (Profile ''Alice''))) \<and>
   \<not> isLoggedIn (snd (loginWithCredentialInternal
          (exampleEnv [ok '''', ok ''login2'', ok ''alice''] [])
          LoginSettlesFirst exampleAuth passwordCredential)) \<and>
   userId (authInfo (snd (loginWithCredentialInternal
          (exampleEnv [ok '''', ok ''login2'', ok ''alice''] [])
          LoginSettlesFirst exampleAuth passwordCredential))) = None \<and>
   storage (snd (loginWithCredentialInternal
          (exampleEnv [ok '''', ok ''login2'', ok ''alice''] [])
          LoginSettlesFirst exampleAuth passwordCredential)) = Some (loggedOut exampleInfo) \<and>
   map req_path (sent (snd (loginWithCredentialInternal
          (exampleEnv [ok '''', ok ''login2'', ok ''alice''] [])
          LoginSettlesFirst exampleAuth passwordCredential)))
     = [''/auth/session'', ''/auth/providers/local-userpass/login'', ''/auth/profile''] \<and>
   isLoggedIn (snd (loginWithCredentialInternal
          (exampleEnv [ok '''', ok ''login2'', ok ''alice''] [])
          LogoutSettlesFirst exampleAuth passwordCredential)) \<and>
   userId (authInfo (snd (loginWithCredentialInternal
          (exampleEnv [ok '''', ok ''login2'', ok ''alice''] [])
          LogoutSettlesFirst exampleAuth passwordCredential))) = Some ''u2''"
  by (simp add: run_defs example_defs login_defs)

subsection \<open>The logged-in invariant\<close>

text \<open>
  C2. A logout whose session-delete request fails in the transport and whose write of
  the logged-out auth info the storage refuses: \<open>clearAuth\<close> has replaced the auth
  info and throws before it clears the user. The call ends in an error, a user is
  still logged in, and the auth info has neither a user id nor tokens; the next
  authenticated request carries the bearer token \<open>undefined\<close>.
\<close>

theorem clearAuth_persist_failure_splits_state:
  "fst (logoutInternal (exampleEnv [transportError, ok ''result''] [False]) exampleAuth)
     = Inl (StitchClientError CouldNotPersistAuthInfo) \<and>
   isLoggedIn (snd (logoutInternal (exampleEnv [transportError, ok ''result''] [False]) exampleAuth)) \<and>
   user (snd (logoutInternal (exampleEnv [transportError, ok ''result''] [False]) exampleAuth))
     = Some exampleUser \<and>
   userId (authInfo (snd (logoutInternal (exampleEnv [transportError, ok ''result''] [False]) exampleAuth)))
     = None \<and>
   accessToken (authInfo (snd (logoutInternal (exampleEnv [transportError, ok ''result''] [False]) exampleAuth)))
     = None \<and>
   fst (doAuthenticatedRequest (exampleEnv [transportError, ok ''result''] [False])
         (snd (logoutInternal (exampleEnv [transportError, ok ''result''] [False]) exampleAuth))
         exampleRequest) = ok ''result'' \<and>
   req_headers (last (sent (snd (doAuthenticatedRequest (exampleEnv [transportError, ok ''result''] [False])
         (snd (logoutInternal (exampleEnv [transportError, ok ''result''] [False]) exampleAuth))
         exampleRequest)))) AUTHORIZATION = Some ''Bearer undefined''"
  by (simp add: run_defs example_defs user_def)

text \<open>
  X3. The constructor establishes the equivalence that the failed logout breaks.
\<close>

theorem newCoreStitchAuth_invariant:
  assumes "newCoreStitchAuth stored = Inr st"
  shows "(isLoggedIn st \<longleftrightarrow> userId (authInfo st) \<noteq> None) \<and> (isLoggedIn st \<longleftrightarrow> user st \<noteq> None)"
  using assms
  by (auto simp: newCoreStitchAuth_def prepUser_def isLoggedIn_def user_def
      split: option.splits if_splits)

theorem newCoreStitchAuth_invariant_witness:
  "newCoreStitchAuth (Some (Some exampleInfo)) = Inr exampleAuth \<and>
   isLoggedIn exampleAuth \<and> userId (authInfo exampleAuth) \<noteq> None \<and> user exampleAuth \<noteq> None"
proof -
  have c: "newCoreStitchAuth (Some (Some exampleInfo)) = Inr exampleAuth"
    by (simp add: newCoreStitchAuth_def prepUser_def example_defs)
  have "isLoggedIn exampleAuth" by (simp add: example_defs)
  with newCoreStitchAuth_invariant [OF c] c show ?thesis by blast
qed

lemma doAuthenticatedRequest_resolved_loggedIn:
  assumes "fst (doAuthenticatedRequest env st r) = Inr x"
  shows "isLoggedIn (snd (doAuthenticatedRequest env st r))"
proof -
  have "isLoggedIn st"
    using assms by (cases "isLoggedIn st") (simp_all add: doAuthenticatedRequest.simps prepareAuthRequest_def)
  moreover have "currentUser (snd (doAuthenticatedRequest env st r)) = currentUser st"
    using user_flow(1) [of st env r] assms by blast
  ultimately show ?thesis by (simp add: isLoggedIn_def)
qed

lemma userMatchesAuthInfo_iff:
  "userMatchesAuthInfo st \<longleftrightarrow> (currentUser st = None \<longleftrightarrow> userId (authInfo st) = None)"
  by (auto simp: userMatchesAuthInfo_def isLoggedIn_def)

lemma userId_merge_None:
  "userId (merge a b) = None \<longleftrightarrow> userId a = None \<and> userId b = None"
  by (auto simp: merge_def orElse_def split: option.splits)

lemma userMatchesAuthInfo_clearAuth:
  assumes "\<forall>n. storageAccepts env n" and "userMatchesAuthInfo st"
  shows "userMatchesAuthInfo (snd (clearAuth env st))"
  using assms by (simp add: clearAuth_explicit userMatchesAuthInfo_iff loggedOut_def)

lemma userMatchesAuthInfo_flow:
  "(\<forall>n. storageAccepts env n) \<Longrightarrow> userMatchesAuthInfo st \<Longrightarrow>
     userMatchesAuthInfo (snd (doAuthenticatedRequest env st r))"
  "(\<forall>n. storageAccepts env n) \<Longrightarrow> userMatchesAuthInfo st \<Longrightarrow>
     userMatchesAuthInfo (snd (handleAuthFailure env st ex r))"
  "(\<forall>n. storageAccepts env n) \<Longrightarrow> userMatchesAuthInfo st \<Longrightarrow>
     userMatchesAuthInfo (snd (tryRefreshAccessToken env st t))"
  "(\<forall>n. storageAccepts env n) \<Longrightarrow> userMatchesAuthInfo st \<Longrightarrow>
     userMatchesAuthInfo (snd (refreshAccessToken env st))"
proof (induction env st r and env st ex r and env st t and env st
    rule: doAuthenticatedRequest_handleAuthFailure_tryRefreshAccessToken_refreshAccessToken.induct)
  case (1 env st stitchReq)
  show ?case
  proof (cases "prepareAuthRequest st stitchReq")
    case (Inl e)
    then show ?thesis using 1 by (simp add: doAuthenticatedRequest.simps)
  next
    case p: (Inr p)
    have m: "userMatchesAuthInfo (st\<lparr>sent := sent st @ [p]\<rparr>)"
      using "1.prems" by (simp add: userMatchesAuthInfo_iff)
    show ?thesis
    proof (cases "transport env (length (sent st)) p")
      case (Inl err)
      have "userMatchesAuthInfo (snd (handleAuthFailure env (st\<lparr>sent := sent st @ [p]\<rparr>) err stitchReq))"
        using "1.IH" [of p "Inl err" "st\<lparr>sent := sent st @ [p]\<rparr>" err] Inl p m "1.prems"(1)
        by (simp add: doRequest_def)
      then show ?thesis using p Inl by (simp add: doAuthenticatedRequest.simps doRequest_def)
    next
      case (Inr response)
      then show ?thesis using p m by (simp add: doAuthenticatedRequest.simps doRequest_def)
    qed
  qed
next
  case (2 env st ex req)
  show ?case
  proof (cases "\<not> isInvalidSession ex")
    case True
    then show ?thesis using 2 by (simp add: handleAuthFailure.simps)
  next
    case inv: False
    show ?thesis
    proof (cases "useRefreshToken req \<or> \<not> shouldRefreshOnFailure req")
      case True
      have "userMatchesAuthInfo (snd (clearAuth env st))"
        using "2.prems" by (rule userMatchesAuthInfo_clearAuth)
      then show ?thesis using inv True
        by (cases "clearAuth env st") (auto simp: handleAuthFailure.simps split: sum.splits)
    next
      case False
      obtain r1 st1 where t: "tryRefreshAccessToken env st (startedAt req) = (r1, st1)"
        by (cases "tryRefreshAccessToken env st (startedAt req)")
      have p1: "userMatchesAuthInfo st1"
        using "2.IH"(1) False inv t "2.prems" by simp
      show ?thesis
      proof (cases r1)
        case (Inl e)
        then show ?thesis using inv False t p1 by (simp add: handleAuthFailure.simps)
      next
        case (Inr u)
        have "userMatchesAuthInfo
            (snd (doAuthenticatedRequest env st1 (req\<lparr>shouldRefreshOnFailure := False\<rparr>)))"
          using "2.IH"(2) [of r1 st1 u] False inv t Inr p1 "2.prems"(1) by simp
        then show ?thesis using inv False t Inr by (simp add: handleAuthFailure.simps)
      qed
    qed
  qed
next
  case (3 env st reqStartedAt)
  then show ?case by (simp add: tryRefreshAccessToken.simps)
next
  case (4 env st)
  obtain r1 st1 where d: "doAuthenticatedRequest env st (refreshRequest env st) = (r1, st1)"
    by (cases "doAuthenticatedRequest env st (refreshRequest env st)")
  have m1: "userMatchesAuthInfo st1" using 4 d by simp
  show ?case
  proof (cases r1)
    case (Inl e)
    then show ?thesis using d m1 by (simp add: refreshAccessToken.simps)
  next
    case (Inr response)
    have "isLoggedIn st1"
      using doAuthenticatedRequest_resolved_loggedIn [of env st "refreshRequest env st" response] d Inr
      by simp
    with m1 have "currentUser st1 \<noteq> None \<and> userId (authInfo st1) \<noteq> None"
      by (simp add: userMatchesAuthInfo_iff isLoggedIn_def)
    then show ?thesis using d Inr
      by (auto simp: refreshAccessToken.simps writeToStorage_def Let_def userMatchesAuthInfo_iff
          userId_merge_None split: option.splits)
  qed
qed

lemma userMatchesAuthInfo_doGetUserProfile:
  "(\<forall>n. storageAccepts env n) \<Longrightarrow> userMatchesAuthInfo st \<Longrightarrow>
     userMatchesAuthInfo (snd (doGetUserProfile env st))"
  by (simp add: snd_doGetUserProfile userMatchesAuthInfo_flow(1))

lemma userMatchesAuthInfo_logoutHandlers:
  assumes "\<forall>n. storageAccepts env n" and "userMatchesAuthInfo (snd r)"
  shows "userMatchesAuthInfo (snd (logoutHandlers env r))"
proof -
  obtain x s where r: "r = (x, s)" by (cases r)
  have c: "userMatchesAuthInfo (snd (clearAuth env s))"
    using assms r by (simp add: userMatchesAuthInfo_clearAuth)
  have f: "fst (clearAuth env s) = Inr ()"
    using assms(1) by (simp add: clearAuth_explicit)
  show ?thesis
    using c f r by (cases x; cases "clearAuth env s") (auto simp: logoutHandlers_def)
qed

lemma userMatchesAuthInfo_logoutInternal:
  assumes "\<forall>n. storageAccepts env n" and "userMatchesAuthInfo st"
  shows "userMatchesAuthInfo (snd (logoutInternal env st))"
proof (cases "isLoggedIn st")
  case False
  then show ?thesis using assms by (simp add: logoutInternal_def)
next
  case True
  have "snd (doLogout env st) = snd (doAuthenticatedRequest env st (logoutRequest env st))"
    by (cases "doAuthenticatedRequest env st (logoutRequest env st)")
       (auto simp: doLogout_def split: sum.splits)
  then have "userMatchesAuthInfo (snd (doLogout env st))"
    using assms by (simp add: userMatchesAuthInfo_flow(1))
  then show ?thesis
    using True assms(1) by (simp add: logoutInternal_def userMatchesAuthInfo_logoutHandlers)
qed

lemma userMatchesAuthInfo_processLogin:
  assumes "\<forall>n. storageAccepts env n" and "userMatchesAuthInfo st" and "userId newAuthInfo \<noteq> None"
  shows "userMatchesAuthInfo (snd (processLogin env st credential newAuthInfo asLinkRequest))"
proof -
  have u: "userId (provisionalInfo st credential newAuthInfo) \<noteq> None"
    using assms(3) by (simp add: provisionalInfo_def userId_merge_None)
  then have "userMatchesAuthInfo (provisional st credential newAuthInfo)"
    by (simp add: provisional_def userMatchesAuthInfo_iff)
  then have m2: "userMatchesAuthInfo (snd (doGetUserProfile env (provisional st credential newAuthInfo)))"
    using assms(1) by (simp add: userMatchesAuthInfo_doGetUserProfile)
  obtain r st2 where g: "doGetUserProfile env (provisional st credential newAuthInfo) = (r, st2)"
    by (cases "doGetUserProfile env (provisional st credential newAuthInfo)")
  with m2 have m: "userMatchesAuthInfo st2" by simp
  have rej: "userMatchesAuthInfo
      (snd (processLoginRejected env (authInfo st) (currentUser st) asLinkRequest err st2))" for err
  proof (cases asLinkRequest)
    case True
    then show ?thesis using assms(2)
      by (simp add: processLoginRejected_def userMatchesAuthInfo_iff)
  next
    case False
    have "userMatchesAuthInfo (snd (clearAuth env st2))"
      using assms(1) m by (rule userMatchesAuthInfo_clearAuth)
    then show ?thesis using False
      by (cases "clearAuth env st2") (auto simp: processLoginRejected_def split: sum.splits)
  qed
  show ?thesis
  proof (cases r)
    case (Inl err)
    then show ?thesis using g rej by (simp add: processLogin_unfold)
  next
    case (Inr profile)
    then show ?thesis using g u assms(1)
      by (simp add: processLogin_unfold writeToStorage_def Let_def userMatchesAuthInfo_def
          isLoggedIn_def merge_def orElse_def split: option.splits)
  qed
qed

lemma userMatchesAuthInfo_doLogin:
  assumes "\<forall>n. storageAccepts env n" and "userMatchesAuthInfo st" and "responsesCarryUserId env"
  shows "userMatchesAuthInfo (snd (doLogin env st credential asLinkRequest))"
proof -
  obtain r st1 where d: "doLoginRequest env st credential asLinkRequest = (r, st1)"
    by (cases "doLoginRequest env st credential asLinkRequest")
  have m1: "userMatchesAuthInfo st1"
  proof (cases asLinkRequest)
    case True
    then show ?thesis
      using d assms userMatchesAuthInfo_flow(1) [of env st "linkRequest env st credential"]
      by (simp add: doLoginRequest_def)
  next
    case False
    then show ?thesis using d assms(2)
      by (auto simp: doLoginRequest_def doRequest_def userMatchesAuthInfo_iff)
  qed
  show ?thesis
  proof (cases r)
    case (Inl e)
    then show ?thesis using d m1 by (simp add: doLogin_def)
  next
    case (Inr response)
    have "userMatchesAuthInfo (snd (processLoginResponse env st1 credential response asLinkRequest))"
    proof (cases "parseApiAuthInfo env (body response)")
      case None
      then show ?thesis using m1 by (simp add: processLoginResponse_def)
    next
      case (Some info)
      then have "userId (toAuthInfo info) \<noteq> None"
        using assms(3)
        by (auto simp: responsesCarryUserId_def parseApiAuthInfo_def toAuthInfo_def
            split: option.splits)
      then show ?thesis using Some m1 assms(1)
        by (simp add: processLoginResponse_def userMatchesAuthInfo_processLogin)
    qed
    then show ?thesis using d Inr
      by (cases "processLoginResponse env st1 credential response asLinkRequest")
         (auto simp: doLogin_def onAuthEvent_def userMatchesAuthInfo_iff
            split: sum.splits)
  qed
qed

lemma userMatchesAuthInfo_logoutInternalSettle:
  assumes "\<forall>n. storageAccepts env n" and "userMatchesAuthInfo st"
  shows "userMatchesAuthInfo (snd (logoutInternalSettle env st pending))"
proof -
  obtain req res where p: "pending = (req, res)" by (cases pending)
  show ?thesis
  proof (cases res)
    case (Inl err)
    have "userMatchesAuthInfo (snd (handleAuthFailure env st err req))"
      using assms by (rule userMatchesAuthInfo_flow(2))
    then have "userMatchesAuthInfo (snd (case handleAuthFailure env st err req of
               (Inl e, st1) \<Rightarrow> (Inl e, st1)
             | (Inr response, st1) \<Rightarrow> (Inr (), st1)))"
      by (cases "handleAuthFailure env st err req") (auto split: sum.splits)
    then show ?thesis using p Inl assms(1)
      by (simp add: logoutInternalSettle_def userMatchesAuthInfo_logoutHandlers)
  next
    case (Inr response)
    then show ?thesis using p assms
      by (simp add: logoutInternalSettle_def userMatchesAuthInfo_logoutHandlers)
  qed
qed

lemma userMatchesAuthInfo_logoutInternalStart:
  assumes "userMatchesAuthInfo st"
  shows "userMatchesAuthInfo (snd (logoutInternalStart env st))"
  using assms
  by (auto simp: logoutInternalStart_def doRequest_def userMatchesAuthInfo_iff split: sum.splits)

text \<open>
  X4. The operations keep the equivalence as long as the storage accepts every write and
  every login response carries a user id: authenticated requests, refresh, logout,
  link, and the login when the dropped session-delete request settles before the
  login response is handled or after the whole login. (When it settles while the
  login is under way, a refresh of the login can merge its response into the
  logged-out auth info; nothing is stated for that order.)
\<close>

theorem userMatchesAuthInfo_preserved:
  assumes "\<forall>n. storageAccepts env n" and "userMatchesAuthInfo st"
    and "responsesCarryUserId env"
    and "\<forall>info asLink. authResponse credential = Some (info, asLink) \<longrightarrow> userId info \<noteq> None"
  shows "userMatchesAuthInfo (snd (doAuthenticatedRequest env st r)) \<and>
         userMatchesAuthInfo (snd (refreshAccessToken env st)) \<and>
         userMatchesAuthInfo (snd (logoutInternal env st)) \<and>
         userMatchesAuthInfo (snd (linkUserWithCredentialInternal env st usr credential)) \<and>
         (order = LogoutSettlesFirst \<or> order = LoginSettlesFirst \<longrightarrow>
            userMatchesAuthInfo (snd (loginWithCredentialInternal env order st credential)))"
proof -
  note login = userMatchesAuthInfo_doLogin [OF assms(1) _ assms(3)]
  have link: "userMatchesAuthInfo (snd (linkUserWithCredentialInternal env st usr credential))"
    using assms(2) login [OF assms(2), of credential True]
    by (simp add: linkUserWithCredentialInternal_def split: option.splits)
  have "userMatchesAuthInfo (snd (loginWithCredentialInternal env order st credential))"
    if ord: "order = LogoutSettlesFirst \<or> order = LoginSettlesFirst"
  proof (cases "authResponse credential")
    case (Some a)
    obtain info asLink where a: "a = (info, asLink)" by (cases a)
    with Some assms(4) have "userId info \<noteq> None" by simp
    then show ?thesis using Some a assms(1,2)
      by (simp add: loginWithCredentialInternal_def userMatchesAuthInfo_processLogin)
  next
    case None
    show ?thesis
    proof (cases "currentUser st")
      case n: None
      then show ?thesis using None login [OF assms(2), of credential False]
        by (simp add: loginWithCredentialInternal_def)
    next
      case (Some cur)
      show ?thesis
      proof (cases "reusesExistingSession (providerCapabilities credential) \<and>
                   Some (providerType credential) = user_loggedInProviderType cur")
        case True
        then show ?thesis using None Some assms(2)
          by (simp add: loginWithCredentialInternal_def)
      next
        case False
        obtain pend st1 where s: "logoutInternalStart env st = (pend, st1)"
          by (cases "logoutInternalStart env st")
        have m1: "userMatchesAuthInfo st1"
          using userMatchesAuthInfo_logoutInternalStart [OF assms(2), of env] s by simp
        show ?thesis
        proof (cases pend)
          case n: None
          then show ?thesis using None Some False s login [OF m1, of credential False]
            by (auto simp: loginWithCredentialInternal_def)
        next
          case p: (Some pending)
          show ?thesis
          proof (cases order)
            case LogoutSettlesFirst
            have "userMatchesAuthInfo (snd (logoutInternalSettle env st1 pending))"
              using assms(1) m1 by (rule userMatchesAuthInfo_logoutInternalSettle)
            from login [OF this, of credential False] show ?thesis
              using None Some False s p LogoutSettlesFirst
              by (auto simp: loginWithCredentialInternal_def)
          next
            case LoginSettlesFirst
            obtain r2 st2 where d: "doLogin env st1 credential False = (r2, st2)"
              by (cases "doLogin env st1 credential False")
            have "userMatchesAuthInfo st2" using login [OF m1, of credential False] d by simp
            with assms(1) have "userMatchesAuthInfo (snd (logoutInternalSettle env st2 pending))"
              by (rule userMatchesAuthInfo_logoutInternalSettle)
            then show ?thesis
              using None Some False s p LoginSettlesFirst d
              by (auto simp: loginWithCredentialInternal_def)
          next
            case (LogoutSettlesDuring n)
            with ord show ?thesis by simp
          qed
        qed
      qed
    qed
  qed
  with link show ?thesis
    using assms(1,2) by (simp add: userMatchesAuthInfo_flow userMatchesAuthInfo_logoutInternal)
qed

theorem userMatchesAuthInfo_preserved_witness:
  "(\<forall>n. storageAccepts (loginEnv [ok '''', ok ''login2'', ok ''alice'']) n) \<and>
   userMatchesAuthInfo exampleAuth \<and>
   responsesCarryUserId (loginEnv [ok '''', ok ''login2'', ok ''alice'']) \<and>
   authResponse passwordCredential = None \<and>
   userMatchesAuthInfo (snd (loginWithCredentialInternal (loginEnv [ok '''', ok ''login2'', ok ''alice''])
     LoginSettlesFirst exampleAuth passwordCredential)) \<and>
   userMatchesAuthInfo (snd (logoutInternal (loginEnv [ok '''', ok ''login2'', ok ''alice'']) exampleAuth))"
proof -
  let ?E = "loginEnv [ok '''', ok ''login2'', ok ''alice'']"
  have h1: "\<forall>n. storageAccepts ?E n"
    and h2: "userMatchesAuthInfo exampleAuth"
    and h3: "responsesCarryUserId ?E"
    and n: "authResponse passwordCredential = None"
    by (simp_all add: loginEnv_def example_defs userMatchesAuthInfo_def responsesCarryUserId_def
        passwordCredential_def)
  from n have h4: "\<forall>info asLink. authResponse passwordCredential = Some (info, asLink) \<longrightarrow>
      userId info \<noteq> None"
    by simp
  from userMatchesAuthInfo_preserved [OF h1 h2 h3 h4] h1 h2 h3 n show ?thesis by blast
qed

subsection \<open>Further properties of requests and login\<close>

text \<open>
  X5. An authenticated request made while no user is logged in fails with
  \<open>MustAuthenticateFirst\<close>; nothing is sent and the state is as it was.
\<close>

theorem doAuthenticatedRequest_must_authenticate:
  assumes "\<not> isLoggedIn st"
  shows "doAuthenticatedRequest env st r = (Inl (StitchClientError MustAuthenticateFirst), st)"
  using assms by (simp add: doAuthenticatedRequest.simps prepareAuthRequest_def)

theorem doAuthenticatedRequest_must_authenticate_witness:
  "\<not> isLoggedIn loggedOutAuth \<and>
   doAuthenticatedRequest (exampleEnv [ok ''result''] []) loggedOutAuth exampleRequest
     = (Inl (StitchClientError MustAuthenticateFirst), loggedOutAuth)"
proof -
  have h: "\<not> isLoggedIn loggedOutAuth" by (simp add: loggedOutAuth_def isLoggedIn_def)
  from doAuthenticatedRequest_must_authenticate [OF h] h show ?thesis by blast
qed

text \<open>
  X6. A failure of an authenticated request that is not a server-reported invalid
  session is the result as it is: one request is sent, and neither a refresh nor a
  retry follows.
\<close>

theorem doAuthenticatedRequest_other_failure:
  assumes "isLoggedIn st" and "transport env (length (sent st)) (prepared st r) = Inl err"
    and "\<not> isInvalidSession err"
  shows "doAuthenticatedRequest env st r = (Inl err, st\<lparr>sent := sent st @ [prepared st r]\<rparr>)"
  using assms
  by (simp add: doAuthenticatedRequest.simps handleAuthFailure.simps prepareAuthRequest_loggedIn
      doRequest_def)

theorem doAuthenticatedRequest_other_failure_witness:
  "isLoggedIn exampleAuth \<and>
   transport (exampleEnv [transportError] []) (length (sent exampleAuth))
     (prepared exampleAuth exampleRequest) = transportError \<and>
   fst (doAuthenticatedRequest (exampleEnv [transportError] []) exampleAuth exampleRequest)
     = transportError \<and>
   authInfo (snd (doAuthenticatedRequest (exampleEnv [transportError] []) exampleAuth exampleRequest))
     = exampleInfo"
proof -
  let ?E = "exampleEnv [transportError] []"
  have h: "isLoggedIn exampleAuth"
    "transport ?E (length (sent exampleAuth)) (prepared exampleAuth exampleRequest)
       = Inl (StitchRequestError (JSError ''network'') TRANSPORT_ERROR)"
    "\<not> isInvalidSession (StitchRequestError (JSError ''network'') TRANSPORT_ERROR)"
    by (simp_all add: example_defs isInvalidSession_def)
  from doAuthenticatedRequest_other_failure [OF h]
  have "fst (doAuthenticatedRequest ?E exampleAuth exampleRequest)
      = Inl (StitchRequestError (JSError ''network'') TRANSPORT_ERROR)"
    "authInfo (snd (doAuthenticatedRequest ?E exampleAuth exampleRequest)) = authInfo exampleAuth"
    by simp_all
  with h show ?thesis by (simp add: transportError_def exampleAuth_def)
qed

text \<open>
  X7. Scenario A of the specification: a client constructed on an empty storage logs
  in; the server answers the login request with the identity \<open>u2\<close> and the profile
  request with a profile. The user has the id \<open>u2\<close> and the profile, the storage
  holds the auth info, \<open>onAuthEvent\<close> has fired once, and two requests were sent.
\<close>

theorem login_from_empty_storage:
  "newCoreStitchAuth (Some None) = Inr loggedOutAuth \<and>
   fst (loginWithCredentialInternal (exampleEnv [ok ''login2'', ok ''alice''] [])
          LogoutSettlesFirst loggedOutAuth passwordCredential)
     = Inr (makeUser (Some ''u2'') (Some ''local-userpass'') (Some ''local-userpass'')
              (Some (Profile ''Alice''))) \<and>
   user (snd (loginWithCredentialInternal (exampleEnv [ok ''login2'', ok ''alice''] [])
          LogoutSettlesFirst loggedOutAuth passwordCredential))
     = Some (makeUser (Some ''u2'') (Some ''local-userpass'') (Some ''local-userpass'')
              (Some (Profile ''Alice''))) \<and>
   authInfo (snd (loginWithCredentialInternal (exampleEnv [ok ''login2'', ok ''alice''] [])
          LogoutSettlesFirst loggedOutAuth passwordCredential))
     = \<lparr>userId = Some ''u2'', deviceId = Some ''d1'', accessToken = Some ''b1'',
        refreshToken = Some ''s1'', loggedInProviderType = Some ''local-userpass'',
        loggedInProviderName = Some ''local-userpass'', userProfile = Some (Profile ''Alice'')\<rparr> \<and>
   storage (snd (loginWithCredentialInternal (exampleEnv [ok ''login2'', ok ''alice''] [])
          LogoutSettlesFirst loggedOutAuth passwordCredential))
     = Some (authInfo (snd (loginWithCredentialInternal (exampleEnv [ok ''login2'', ok ''alice''] [])
          LogoutSettlesFirst loggedOutAuth passwordCredential))) \<and>
   authEvents (snd (loginWithCredentialInternal (exampleEnv [ok ''login2'', ok ''alice''] [])
          LogoutSettlesFirst loggedOutAuth passwordCredential)) = 1 \<and>
   map req_path (sent (snd (loginWithCredentialInternal (exampleEnv [ok ''login2'', ok ''alice''] [])
          LogoutSettlesFirst loggedOutAuth passwordCredential)))
     = [''/auth/providers/local-userpass/login'', ''/auth/profile'']"
  by (simp add: run_defs example_defs login_defs newCoreStitchAuth_def prepUser_def user_def)

end
